theory Spec2Isabelle
  imports Complex_Main
begin

section \<open>Values passed between the game, the players and the queues\<close>

text \<open>
  \<^verbatim>\<open>play.py\<close> coordinates three kinds of collaborators that live in other modules: a
  game object (\<^verbatim>\<open>LocalGame\<close>, \<^verbatim>\<open>RemoteGame\<close>, \<^verbatim>\<open>MultiprocessingLocalGame\<close>), player
  objects, and (for the multiprocessing topology) queues and processes. The values these
  exchange are only passed through by \<^verbatim>\<open>play.py\<close>.

  A colour is a Python \<^verbatim>\<open>bool\<close>: \<^verbatim>\<open>chess.WHITE = True\<close>, \<^verbatim>\<open>chess.BLACK = False\<close> and
  \<^verbatim>\<open>chess.COLORS = [WHITE, BLACK]\<close>. The code relies on that when it writes
  \<^verbatim>\<open>players[game.turn]\<close> and \<^verbatim>\<open>game.player_names[not color]\<close>.
\<close>

type_synonym color = bool

definition WHITE :: color where [simp]: "WHITE = True"
definition BLACK :: color where [simp]: "BLACK = False"
definition COLORS :: "color list" where "COLORS = [WHITE, BLACK]"

type_synonym square = nat
type_synonym piece = char
type_synonym seconds = real
type_synonym board = string

datatype chess_move = Move (from_square: square) (to_square: square) (promotion: "nat option")

datatype win_reason = KING_CAPTURE | TIMEOUT

type_synonym sense_result = "(square \<times> piece option) list"
type_synonym move_result = "chess_move option \<times> chess_move option \<times> square option"
type_synonym game_history = "(square option \<times> move_result) list"

text \<open>\<^verbatim>\<open>chess.Board()\<close>: the standard starting position, written as its FEN.\<close>

definition chess_Board :: board where
  "chess_Board = ''rnbqkbnr/pppppppp/8/8/8/8/PPPPPPPP/RNBQKBNR w KQkq - 0 1''"

text \<open>
  A request on a ``to moderator'' queue is a sequence: \<^verbatim>\<open>request[0]\<close> is the command, and
  \<^verbatim>\<open>request[1]\<close>, when it is there, is a dict that the mediator reads at the keys
  \<^verbatim>\<open>'square'\<close> and \<^verbatim>\<open>'requested_move'\<close>. A key that is absent is \<open>None\<close> here; a key
  whose value is \<^verbatim>\<open>None\<close> (no sense, or a pass for the move) is \<open>Some None\<close>.
\<close>

record payload =
  square :: "square option option"
  requested_move :: "chess_move option option"

type_synonym request = "string \<times> payload option"

text \<open>
  A response on a ``to player'' queue is a dict with one key (two for \<^verbatim>\<open>game_status\<close>), or
  \<^verbatim>\<open>None\<close>. One constructor for each dict the mediator builds, named by its key; a value that
  may be \<^verbatim>\<open>None\<close> is an option. \<^verbatim>\<open>opponent_move_results()\<close> itself returns a square or
  \<^verbatim>\<open>None\<close>, so that value is the one option.
\<close>

datatype response =
    R_color color
  | R_board board
  | R_opponent_name string
  | R_sense_actions "square list option"
  | R_move_actions "chess_move list option"
  | R_seconds_left seconds
  | R_ready
  | R_is_my_turn bool
  | R_opponent_move_results "square option"
  | R_sense_result "sense_result option"
  | R_move_result "move_result option"
  | R_end_turn
  | R_game_status (status_is_over: bool) (status_is_my_turn: bool)
  | R_winner_color "color option"
  | R_win_reason "win_reason option"
  | R_game_history game_history
  | R_None

datatype py_error = KeyError | IndexError

section \<open>The collaborators' interfaces\<close>

text \<open>
  A method of a collaborator may read and change anything it can reach, so it is a function
  on the whole world \<open>'w\<close> that returns its result and the new world. An attribute that the
  code only reads (\<^verbatim>\<open>game.turn\<close>, \<^verbatim>\<open>game.board\<close>, \<^verbatim>\<open>game.seconds_left_by_color\<close>,
  \<^verbatim>\<open>game.player_names\<close>) is a function of the world. \<^verbatim>\<open>play.py\<close> catches no exception, and a
  call of a collaborator is modelled where it returns.

  \<^verbatim>\<open>end_turn\<close>, \<^verbatim>\<open>start\<close>, \<^verbatim>\<open>end\<close> and \<^verbatim>\<open>store_players\<close> return \<^verbatim>\<open>None\<close>, as the game
  interface declares them.
\<close>

record 'w game =
  turn :: "'w \<Rightarrow> color"
  board :: "'w \<Rightarrow> board"
  seconds_left_by_color :: "'w \<Rightarrow> color \<Rightarrow> seconds"
  player_names :: "'w \<Rightarrow> string \<times> string"
  set_player_names :: "string \<times> string \<Rightarrow> 'w \<Rightarrow> 'w"
  store_players :: "string \<Rightarrow> string \<Rightarrow> 'w \<Rightarrow> 'w"
  get_player_color :: "'w \<Rightarrow> color \<times> 'w"
  get_starting_board :: "'w \<Rightarrow> board \<times> 'w"
  get_opponent_name :: "'w \<Rightarrow> string \<times> 'w"
  start :: "'w \<Rightarrow> 'w"
  game_end :: "'w \<Rightarrow> 'w"
  is_over :: "'w \<Rightarrow> bool \<times> 'w"
  sense_actions :: "'w \<Rightarrow> square list \<times> 'w"
  move_actions :: "'w \<Rightarrow> chess_move list \<times> 'w"
  opponent_move_results :: "'w \<Rightarrow> square option \<times> 'w"
  sense :: "square option \<Rightarrow> 'w \<Rightarrow> sense_result \<times> 'w"
  move :: "chess_move option \<Rightarrow> 'w \<Rightarrow> move_result \<times> 'w"
  end_turn :: "'w \<Rightarrow> 'w"
  get_seconds_left :: "'w \<Rightarrow> seconds \<times> 'w"
  get_winner_color :: "'w \<Rightarrow> color option \<times> 'w"
  get_win_reason :: "'w \<Rightarrow> win_reason option \<times> 'w"
  get_game_history :: "'w \<Rightarrow> game_history \<times> 'w"

record 'w player =
  class_name :: string
  handle_game_start :: "color \<Rightarrow> board \<Rightarrow> string \<Rightarrow> 'w \<Rightarrow> 'w"
  handle_opponent_move_result :: "bool \<Rightarrow> square option \<Rightarrow> 'w \<Rightarrow> 'w"
  choose_sense ::
    "square list \<Rightarrow> chess_move list \<Rightarrow> seconds \<Rightarrow> 'w \<Rightarrow> square option \<times> 'w"
  handle_sense_result :: "sense_result \<Rightarrow> 'w \<Rightarrow> 'w"
  choose_move :: "chess_move list \<Rightarrow> seconds \<Rightarrow> 'w \<Rightarrow> chess_move option \<times> 'w"
  handle_move_result ::
    "chess_move option \<Rightarrow> chess_move option \<Rightarrow> bool \<Rightarrow> square option \<Rightarrow> 'w \<Rightarrow> 'w"
  handle_game_end :: "color option \<Rightarrow> win_reason option \<Rightarrow> game_history \<Rightarrow> 'w \<Rightarrow> 'w"

text \<open>
  The queues of the multiprocessing topology, \<^verbatim>\<open>queues[color]['to moderator']\<close> and
  \<^verbatim>\<open>queues[color]['to player']\<close>, with the three methods the mediator calls on them, and the
  two player processes (number 0 runs Black, number 1 runs White). The peers run
  concurrently: what they do between two calls of the mediator is part of what the next
  call finds in the world.
\<close>

record 'w queues =
  to_moderator_empty :: "color \<Rightarrow> 'w \<Rightarrow> bool \<times> 'w"
  to_moderator_get :: "color \<Rightarrow> 'w \<Rightarrow> request \<times> 'w"
  to_player_put :: "color \<Rightarrow> response \<Rightarrow> 'w \<Rightarrow> 'w"

record 'w processes =
  process_start :: "nat \<Rightarrow> 'w \<Rightarrow> 'w"
  process_is_alive :: "nat \<Rightarrow> 'w \<Rightarrow> bool \<times> 'w"

section \<open>The turn engine\<close>

definition notify_opponent_move_results :: "'w game \<Rightarrow> 'w player \<Rightarrow> 'w \<Rightarrow> 'w" where
  "notify_opponent_move_results G P w =
     (let (opt_capture_square, w1) = opponent_move_results G w
      in handle_opponent_move_result P (opt_capture_square \<noteq> None) opt_capture_square w1)"

definition play_sense ::
  "'w game \<Rightarrow> 'w player \<Rightarrow> square list \<Rightarrow> chess_move list \<Rightarrow> 'w \<Rightarrow> 'w" where
  "play_sense G P sense_acts move_acts w =
     (let (secs, w1) = get_seconds_left G w;
          (sq, w2) = choose_sense P sense_acts move_acts secs w1;
          (sense_res, w3) = sense G sq w2
      in handle_sense_result P sense_res w3)"

definition play_move :: "'w game \<Rightarrow> 'w player \<Rightarrow> chess_move list \<Rightarrow> bool \<Rightarrow> 'w \<Rightarrow> 'w" where
  "play_move G P move_acts end_turn_last w =
     (let (secs, w1) = get_seconds_left G w;
          (mv, w2) = choose_move P move_acts secs w1;
          ((requested_move, taken_move, opt_enemy_capture_square), w3) = move G mv w2;
          w4 = (if \<not> end_turn_last then end_turn G w3 else w3);
          w5 = handle_move_result P requested_move taken_move
                 (opt_enemy_capture_square \<noteq> None) opt_enemy_capture_square w4
      in if end_turn_last then end_turn G w5 else w5)"

definition play_turn :: "'w game \<Rightarrow> 'w player \<Rightarrow> bool \<Rightarrow> 'w \<Rightarrow> 'w" where
  "play_turn G P end_turn_last w =
     (let (sense_acts, w1) = sense_actions G w;
          (move_acts, w2) = move_actions G w1;
          w3 = notify_opponent_move_results G P w2;
          w4 = play_sense G P sense_acts move_acts w3
      in play_move G P move_acts end_turn_last w4)"

section \<open>The whole-game drivers\<close>

text \<open>
  A \<^verbatim>\<open>while\<close> loop whose condition is a method of a collaborator may run forever. The loops
  take a bound on the number of times the condition is evaluated; \<open>None\<close> says that the
  bound was reached.

  The game object is the one passed in (the default \<^verbatim>\<open>LocalGame(...)\<close>, \<^verbatim>\<open>RemoteGame(...)\<close>
  and \<^verbatim>\<open>MultiprocessingLocalGame(queues)\<close> are built by constructors of another module).
  \<^verbatim>\<open>players = [black_player, white_player]\<close> is indexed by the bool \<^verbatim>\<open>game.turn\<close>.
\<close>

fun local_game_loop :: "nat \<Rightarrow> 'w game \<Rightarrow> 'w player list \<Rightarrow> 'w \<Rightarrow> 'w option" where
  "local_game_loop 0 G players w = None"
| "local_game_loop (Suc n) G players w =
     (let (over, w1) = is_over G w
      in if \<not> over
         then local_game_loop n G players
                (play_turn G (players ! (if turn G w1 then 1 else 0)) True w1)
         else Some w1)"

definition play_local_game ::
  "nat \<Rightarrow> 'w player \<Rightarrow> 'w player \<Rightarrow> 'w game \<Rightarrow> 'w \<Rightarrow>
     ((color option \<times> win_reason option \<times> game_history) \<times> 'w) option" where
  "play_local_game fuel white_player black_player G w =
     (let players = [black_player, white_player];
          white_name = class_name white_player;
          black_name = class_name black_player;
          w1 = store_players G white_name black_name w;
          w2 = handle_game_start white_player WHITE (board G w1) black_name w1;
          w3 = handle_game_start black_player BLACK (board G w2) white_name w2;
          w4 = start G w3
      in case local_game_loop fuel G players w4 of
           None \<Rightarrow> None
         | Some w5 \<Rightarrow>
             (let w6 = game_end G w5;
                  (winner_color, w7) = get_winner_color G w6;
                  (win_reason, w8) = get_win_reason G w7;
                  (game_history, w9) = get_game_history G w8;
                  w10 = handle_game_end white_player winner_color win_reason game_history w9;
                  w11 = handle_game_end black_player winner_color win_reason game_history w10
              in Some ((winner_color, win_reason, game_history), w11)))"

fun remote_game_loop :: "nat \<Rightarrow> 'w game \<Rightarrow> 'w player \<Rightarrow> 'w \<Rightarrow> 'w option" where
  "remote_game_loop 0 G P w = None"
| "remote_game_loop (Suc n) G P w =
     (let (over, w1) = is_over G w
      in if \<not> over then remote_game_loop n G P (play_turn G P False w1) else Some w1)"

definition play_remote_game ::
  "nat \<Rightarrow> 'w game \<Rightarrow> 'w player \<Rightarrow> 'w \<Rightarrow>
     ((color option \<times> win_reason option \<times> game_history) \<times> 'w) option" where
  "play_remote_game fuel G P w =
     (let (player_color, w1) = get_player_color G w;
          (starting_board, w2) = get_starting_board G w1;
          (opponent_name, w3) = get_opponent_name G w2;
          w4 = handle_game_start P player_color starting_board opponent_name w3;
          w5 = start G w4
      in case remote_game_loop fuel G P w5 of
           None \<Rightarrow> None
         | Some w6 \<Rightarrow>
             (let (winner_color, w7) = get_winner_color G w6;
                  (win_reason, w8) = get_win_reason G w7;
                  (game_history, w9) = get_game_history G w8;
                  w10 = handle_game_end P winner_color win_reason game_history w9
              in Some ((winner_color, win_reason, game_history), w10)))"

text \<open>
  \<^verbatim>\<open>_play_in_multiprocessing_local_game\<close>: what each player process runs, on its own game
  object and its own player. It returns nothing.
\<close>

definition play_in_multiprocessing_local_game ::
  "nat \<Rightarrow> 'w game \<Rightarrow> 'w player \<Rightarrow> 'w \<Rightarrow> 'w option" where
  "play_in_multiprocessing_local_game fuel G P w =
     (let (player_color, w1) = get_player_color G w;
          (starting_board, w2) = get_starting_board G w1;
          (opponent_name, w3) = get_opponent_name G w2;
          w4 = handle_game_start P player_color starting_board opponent_name w3;
          w5 = start G w4
      in case remote_game_loop fuel G P w5 of
           None \<Rightarrow> None
         | Some w6 \<Rightarrow>
             (let (winner_color, w7) = get_winner_color G w6;
                  (win_reason, w8) = get_win_reason G w7;
                  (game_history, w9) = get_game_history G w8
              in Some (handle_game_end P winner_color win_reason game_history w9)))"

section \<open>The mediator of the multiprocessing topology\<close>

text \<open>
  \<^verbatim>\<open>responses\<close> is the dict of \<^verbatim>\<open>_respond_to_requests\<close>: from the command to a closure that
  is run only when it is looked up. A conditional expression evaluates only the branch it
  takes, and \<^verbatim>\<open>a or b\<close> evaluates \<^verbatim>\<open>b\<close> only when \<^verbatim>\<open>a\<close> is false; \<^verbatim>\<open>game.end_turn()\<close>
  returns \<^verbatim>\<open>None\<close>, so \<^verbatim>\<open>game.end_turn() or put(...)\<close> does both. A command that is not
  a key raises \<^verbatim>\<open>KeyError\<close>, and so does a key missing from \<^verbatim>\<open>request[1]\<close>.
\<close>

definition responses ::
  "'w game \<Rightarrow> 'w queues \<Rightarrow> color \<Rightarrow> request \<Rightarrow> bool \<Rightarrow>
     (string \<times> ('w \<Rightarrow> py_error + 'w)) list" where
  "responses G Q color request on_own_turn =
   [(''color'',
       \<lambda>w. Inr (to_player_put Q color (R_color color) w)),
    (''starting_board'',
       \<lambda>w. Inr (to_player_put Q color (R_board chess_Board) w)),
    (''opponent_name'',
       \<lambda>w. Inr (to_player_put Q color
          (R_opponent_name
             (if \<not> color then snd (player_names G w) else fst (player_names G w))) w)),
    (''sense_actions'',
       \<lambda>w. if on_own_turn
           then (let (acts, w1) = sense_actions G w
                 in Inr (to_player_put Q color (R_sense_actions (Some acts)) w1))
           else Inr (to_player_put Q color (R_sense_actions None) w)),
    (''move_actions'',
       \<lambda>w. if on_own_turn
           then (let (acts, w1) = move_actions G w
                 in Inr (to_player_put Q color (R_move_actions (Some acts)) w1))
           else Inr (to_player_put Q color (R_move_actions None) w)),
    (''seconds_left'',
       \<lambda>w. if on_own_turn
           then (let (secs, w1) = get_seconds_left G w
                 in Inr (to_player_put Q color (R_seconds_left secs) w1))
           else Inr (to_player_put Q color
                  (R_seconds_left (seconds_left_by_color G w color)) w)),
    (''ready'',
       \<lambda>w. Inr (to_player_put Q color R_ready w)),
    (''is_my_turn'',
       \<lambda>w. if on_own_turn
           then Inr (to_player_put Q color (R_is_my_turn True) w)
           else (let (over, w1) = is_over G w
                 in Inr (to_player_put Q color (R_is_my_turn over) w1))),
    (''opponent_move_results'',
       \<lambda>w. if on_own_turn
           then (let (opt, w1) = opponent_move_results G w
                 in Inr (to_player_put Q color (R_opponent_move_results opt) w1))
           else Inr (to_player_put Q color (R_opponent_move_results None) w)),
    (''sense'',
       \<lambda>w. if on_own_turn
           then (case snd request of
                   None \<Rightarrow> Inl IndexError
                 | Some args \<Rightarrow>
                     (case square args of
                        None \<Rightarrow> Inl KeyError
                      | Some sq \<Rightarrow>
                          (let (res, w1) = sense G sq w
                           in Inr (to_player_put Q color (R_sense_result (Some res)) w1))))
           else Inr (to_player_put Q color (R_sense_result None) w)),
    (''move'',
       \<lambda>w. if on_own_turn
           then (case snd request of
                   None \<Rightarrow> Inl IndexError
                 | Some args \<Rightarrow>
                     (case requested_move args of
                        None \<Rightarrow> Inl KeyError
                      | Some mv \<Rightarrow>
                          (let (res, w1) = move G mv w
                           in Inr (to_player_put Q color (R_move_result (Some res)) w1))))
           else Inr (to_player_put Q color (R_move_result None) w)),
    (''end_turn'',
       \<lambda>w. if on_own_turn
           then Inr (to_player_put Q color R_end_turn (end_turn G w))
           else Inr (to_player_put Q color R_None w)),
    (''game_status'',
       \<lambda>w. (let (over, w1) = is_over G w
            in Inr (to_player_put Q color (R_game_status over on_own_turn) w1))),
    (''winner_color'',
       \<lambda>w. (let (c, w1) = get_winner_color G w
            in Inr (to_player_put Q color (R_winner_color c) w1))),
    (''win_reason'',
       \<lambda>w. (let (r, w1) = get_win_reason G w
            in Inr (to_player_put Q color (R_win_reason r) w1))),
    (''game_history'',
       \<lambda>w. (let (h, w1) = get_game_history G w
            in Inr (to_player_put Q color (R_game_history h) w1)))]"

text \<open>The body of the loop \<^verbatim>\<open>for color in chess.COLORS\<close>, then the loop.\<close>

definition respond :: "'w game \<Rightarrow> 'w queues \<Rightarrow> color \<Rightarrow> 'w \<Rightarrow> py_error + 'w" where
  "respond G Q color w =
     (let (is_empty, w1) = to_moderator_empty Q color w
      in if \<not> is_empty
         then (let (request, w2) = to_moderator_get Q color w1;
                   request_command = fst request;
                   on_own_turn = (turn G w2 = color)
               in case map_of (responses G Q color request on_own_turn) request_command of
                    None \<Rightarrow> Inl KeyError
                  | Some response \<Rightarrow> response w2)
         else Inr w1)"

fun for_colors ::
  "(color \<Rightarrow> 'w \<Rightarrow> py_error + 'w) \<Rightarrow> color list \<Rightarrow> 'w \<Rightarrow> py_error + 'w" where
  "for_colors body [] w = Inr w"
| "for_colors body (c # cs) w =
     (case body c w of Inl e \<Rightarrow> Inl e | Inr w' \<Rightarrow> for_colors body cs w')"

definition respond_to_requests :: "'w game \<Rightarrow> 'w queues \<Rightarrow> 'w \<Rightarrow> py_error + 'w" where
  "respond_to_requests G Q w = for_colors (respond G Q) COLORS w"

text \<open>
  The two loops of \<^verbatim>\<open>play_multiprocessing_local_game\<close>. The list comprehension inside
  \<^verbatim>\<open>any([...])\<close> asks both processes before \<^verbatim>\<open>any\<close> looks at the answers.
\<close>

fun moderate_until_over ::
  "nat \<Rightarrow> 'w game \<Rightarrow> 'w queues \<Rightarrow> 'w \<Rightarrow> (py_error + 'w) option" where
  "moderate_until_over 0 G Q w = None"
| "moderate_until_over (Suc n) G Q w =
     (let (over, w1) = is_over G w
      in if \<not> over
         then (case respond_to_requests G Q w1 of
                 Inl e \<Rightarrow> Some (Inl e)
               | Inr w2 \<Rightarrow> moderate_until_over n G Q w2)
         else Some (Inr w1))"

fun moderate_while_alive ::
  "nat \<Rightarrow> 'w game \<Rightarrow> 'w queues \<Rightarrow> 'w processes \<Rightarrow> 'w \<Rightarrow> (py_error + 'w) option" where
  "moderate_while_alive 0 G Q PR w = None"
| "moderate_while_alive (Suc n) G Q PR w =
     (let (alive0, w1) = process_is_alive PR 0 w;
          (alive1, w2) = process_is_alive PR 1 w1
      in if alive0 \<or> alive1
         then (case respond_to_requests G Q w2 of
                 Inl e \<Rightarrow> Some (Inl e)
               | Inr w3 \<Rightarrow> moderate_while_alive n G Q PR w3)
         else Some (Inr w2))"

definition play_multiprocessing_local_game ::
  "nat \<Rightarrow> string \<Rightarrow> string \<Rightarrow> 'w game \<Rightarrow> 'w queues \<Rightarrow> 'w processes \<Rightarrow> 'w \<Rightarrow>
     (py_error + (color option \<times> win_reason option \<times> game_history) \<times> 'w) option" where
  "play_multiprocessing_local_game fuel white_name black_name G Q PR w =
     (let w1 = store_players G white_name black_name w;
          w2 = set_player_names G (black_name, white_name) w1;
          w3 = process_start PR 0 w2;
          w4 = process_start PR 1 w3;
          w5 = start G w4
      in case moderate_until_over fuel G Q w5 of
           None \<Rightarrow> None
         | Some (Inl e) \<Rightarrow> Some (Inl e)
         | Some (Inr w6) \<Rightarrow>
             (case moderate_while_alive fuel G Q PR (game_end G w6) of
                None \<Rightarrow> None
              | Some (Inl e) \<Rightarrow> Some (Inl e)
              | Some (Inr w7) \<Rightarrow>
                  (let (winner_color, w8) = get_winner_color G w7;
                       (win_reason, w9) = get_win_reason G w8;
                       (game_history, w10) = get_game_history G w9
                   in Some (Inr ((winner_color, win_reason, game_history), w10)))))"

section \<open>Recording the calls\<close>

text \<open>
  The claims are about which methods are called, in which order and with which arguments.
  To observe that, a collaborator is wrapped so that each of its methods first appends the
  call to a log kept beside the world, and then does what the wrapped method does. The
  functions of \<^verbatim>\<open>play.py\<close> are run unchanged on the wrapped collaborators. A player's calls
  are tagged with a name for the player object.
\<close>

datatype event =
    Game_set_player_names "string \<times> string"
  | Game_store_players string string
  | Game_get_player_color
  | Game_get_starting_board
  | Game_get_opponent_name
  | Game_start
  | Game_end
  | Game_is_over bool
  | Game_sense_actions
  | Game_move_actions
  | Game_opponent_move_results
  | Game_sense "square option"
  | Game_move "chess_move option"
  | Game_end_turn
  | Game_get_seconds_left
  | Game_get_winner_color
  | Game_get_win_reason
  | Game_get_game_history
  | Player_handle_game_start string color board string
  | Player_handle_opponent_move_result string bool "square option"
  | Player_choose_sense string "square list" "chess_move list" seconds
  | Player_handle_sense_result string sense_result
  | Player_choose_move string "chess_move list" seconds
  | Player_handle_move_result string "chess_move option" "chess_move option" bool "square option"
  | Player_handle_game_end string "color option" "win_reason option" game_history
  | Queue_empty color bool
  | Queue_get color request
  | Queue_put color response
  | Process_start nat
  | Process_is_alive nat bool

definition logged :: "event \<Rightarrow> ('w \<Rightarrow> 'a \<times> 'w) \<Rightarrow> 'w \<times> event list \<Rightarrow> 'a \<times> 'w \<times> event list" where
  "logged e f = (\<lambda>(w, l). let (r, w') = f w in (r, w', l @ [e]))"

definition logged_unit :: "event \<Rightarrow> ('w \<Rightarrow> 'w) \<Rightarrow> 'w \<times> event list \<Rightarrow> 'w \<times> event list" where
  "logged_unit e f = (\<lambda>(w, l). (f w, l @ [e]))"

definition spy_game :: "'w game \<Rightarrow> ('w \<times> event list) game" where
  "spy_game G = \<lparr>
     turn = (\<lambda>(w, l). turn G w),
     board = (\<lambda>(w, l). board G w),
     seconds_left_by_color = (\<lambda>(w, l). seconds_left_by_color G w),
     player_names = (\<lambda>(w, l). player_names G w),
     set_player_names = (\<lambda>n. logged_unit (Game_set_player_names n) (set_player_names G n)),
     store_players = (\<lambda>a b. logged_unit (Game_store_players a b) (store_players G a b)),
     get_player_color = logged Game_get_player_color (get_player_color G),
     get_starting_board = logged Game_get_starting_board (get_starting_board G),
     get_opponent_name = logged Game_get_opponent_name (get_opponent_name G),
     start = logged_unit Game_start (start G),
     game_end = logged_unit Game_end (game_end G),
     is_over = (\<lambda>(w, l). let (b, w') = is_over G w in (b, w', l @ [Game_is_over b])),
     sense_actions = logged Game_sense_actions (sense_actions G),
     move_actions = logged Game_move_actions (move_actions G),
     opponent_move_results = logged Game_opponent_move_results (opponent_move_results G),
     sense = (\<lambda>sq. logged (Game_sense sq) (sense G sq)),
     move = (\<lambda>m. logged (Game_move m) (move G m)),
     end_turn = logged_unit Game_end_turn (end_turn G),
     get_seconds_left = logged Game_get_seconds_left (get_seconds_left G),
     get_winner_color = logged Game_get_winner_color (get_winner_color G),
     get_win_reason = logged Game_get_win_reason (get_win_reason G),
     get_game_history = logged Game_get_game_history (get_game_history G) \<rparr>"

definition spy_player :: "string \<Rightarrow> 'w player \<Rightarrow> ('w \<times> event list) player" where
  "spy_player p P = \<lparr>
     class_name = class_name P,
     handle_game_start = (\<lambda>c b n.
        logged_unit (Player_handle_game_start p c b n) (handle_game_start P c b n)),
     handle_opponent_move_result = (\<lambda>c s.
        logged_unit (Player_handle_opponent_move_result p c s) (handle_opponent_move_result P c s)),
     choose_sense = (\<lambda>sa ma t.
        logged (Player_choose_sense p sa ma t) (choose_sense P sa ma t)),
     handle_sense_result = (\<lambda>r.
        logged_unit (Player_handle_sense_result p r) (handle_sense_result P r)),
     choose_move = (\<lambda>ma t.
        logged (Player_choose_move p ma t) (choose_move P ma t)),
     handle_move_result = (\<lambda>r t c s.
        logged_unit (Player_handle_move_result p r t c s) (handle_move_result P r t c s)),
     handle_game_end = (\<lambda>c r h.
        logged_unit (Player_handle_game_end p c r h) (handle_game_end P c r h)) \<rparr>"

definition spy_queues :: "'w queues \<Rightarrow> ('w \<times> event list) queues" where
  "spy_queues Q = \<lparr>
     to_moderator_empty = (\<lambda>c (w, l).
        let (b, w') = to_moderator_empty Q c w in (b, w', l @ [Queue_empty c b])),
     to_moderator_get = (\<lambda>c (w, l).
        let (r, w') = to_moderator_get Q c w in (r, w', l @ [Queue_get c r])),
     to_player_put = (\<lambda>c r. logged_unit (Queue_put c r) (to_player_put Q c r)) \<rparr>"

definition spy_processes :: "'w processes \<Rightarrow> ('w \<times> event list) processes" where
  "spy_processes PR = \<lparr>
     process_start = (\<lambda>i. logged_unit (Process_start i) (process_start PR i)),
     process_is_alive = (\<lambda>i (w, l).
        let (b, w') = process_is_alive PR i w in (b, w', l @ [Process_is_alive i b])) \<rparr>"

section \<open>Reading a log\<close>

text \<open>
  \<open>first_call e tr\<close> is the position of the first call \<open>e\<close> in the log \<open>tr\<close> (its length
  when \<open>e\<close> is not called), and \<open>called_before a b tr\<close> says that \<open>a\<close> is called, and before
  any call \<open>b\<close>.
\<close>

definition first_call :: "event \<Rightarrow> event list \<Rightarrow> nat" where
  "first_call e tr = length (takeWhile (\<lambda>x. x \<noteq> e) tr)"

definition called_before :: "event \<Rightarrow> event \<Rightarrow> event list \<Rightarrow> bool" where
  "called_before a b tr = (first_call a tr < first_call b tr)"

definition is_choice :: "event \<Rightarrow> bool" where
  "is_choice e =
     (case e of Player_choose_sense p sa ma t \<Rightarrow> True
              | Player_choose_move p ma t \<Rightarrow> True
              | _ \<Rightarrow> False)"

definition is_game_call :: "event \<Rightarrow> bool" where
  "is_game_call e =
     (case e of
        Player_handle_game_start p c b n \<Rightarrow> False
      | Player_handle_opponent_move_result p c s \<Rightarrow> False
      | Player_choose_sense p sa ma t \<Rightarrow> False
      | Player_handle_sense_result p r \<Rightarrow> False
      | Player_choose_move p ma t \<Rightarrow> False
      | Player_handle_move_result p r t c s \<Rightarrow> False
      | Player_handle_game_end p c r h \<Rightarrow> False
      | Queue_empty c b \<Rightarrow> False
      | Queue_get c r \<Rightarrow> False
      | Queue_put c r \<Rightarrow> False
      | Process_start i \<Rightarrow> False
      | Process_is_alive i b \<Rightarrow> False
      | _ \<Rightarrow> True)"

section \<open>Requests and exchanges of the mediator\<close>

text \<open>
  \<open>pending Q c w\<close> is what the loop body finds for colour \<open>c\<close> in the world \<open>w\<close>: nothing
  when \<^verbatim>\<open>empty()\<close> answers true, and otherwise the request that \<^verbatim>\<open>get()\<close> returns, with the
  world after both calls. \<open>run_response\<close> names the last line of the loop body, the lookup of
  the command in \<open>responses\<close> and the call of what it finds.
\<close>

definition pending :: "'w queues \<Rightarrow> color \<Rightarrow> 'w \<Rightarrow> (request \<times> 'w) option" where
  "pending Q c w =
     (let (is_empty, w1) = to_moderator_empty Q c w
      in if is_empty then None else Some (to_moderator_get Q c w1))"

definition run_response ::
  "'w game \<Rightarrow> 'w queues \<Rightarrow> color \<Rightarrow> request \<Rightarrow> bool \<Rightarrow> string \<Rightarrow> 'w \<Rightarrow> py_error + 'w" where
  "run_response G Q c rq own cmd w =
     (case map_of (responses G Q c rq own) cmd of None \<Rightarrow> Inl KeyError | Some f \<Rightarrow> f w)"

text \<open>
  The keys of \<open>responses\<close>, the gated ones among them that answer with a value or \<^verbatim>\<open>None\<close>,
  and the response that carries \<^verbatim>\<open>None\<close> for each of these.
\<close>

definition commands :: "string list" where
  "commands = [''color'', ''starting_board'', ''opponent_name'', ''sense_actions'',
     ''move_actions'', ''seconds_left'', ''ready'', ''is_my_turn'', ''opponent_move_results'',
     ''sense'', ''move'', ''end_turn'', ''game_status'', ''winner_color'', ''win_reason'',
     ''game_history'']"

definition gated_commands :: "string list" where
  "gated_commands = [''sense_actions'', ''move_actions'', ''opponent_move_results'',
     ''sense'', ''move'']"

definition not_available :: "string \<Rightarrow> response" where
  "not_available cmd =
     (if cmd = ''sense_actions'' then R_sense_actions None
      else if cmd = ''move_actions'' then R_move_actions None
      else if cmd = ''opponent_move_results'' then R_opponent_move_results None
      else if cmd = ''sense'' then R_sense_result None
      else R_move_result None)"

text \<open>
  A request as the peers of the multiprocessing topology send it: its command is a key of
  \<open>responses\<close>, and a \<^verbatim>\<open>sense\<close> or \<^verbatim>\<open>move\<close> request carries its argument, under the key
  \<^verbatim>\<open>'square'\<close> or \<^verbatim>\<open>'requested_move'\<close>; the argument itself may be \<^verbatim>\<open>None\<close>.
\<close>

definition valid_request :: "request \<Rightarrow> bool" where
  "valid_request rq =
     (fst rq \<in> set commands
      \<and> (fst rq = ''sense'' \<longrightarrow> (case snd rq of None \<Rightarrow> False | Some a \<Rightarrow> square a \<noteq> None))
      \<and> (fst rq = ''move'' \<longrightarrow>
           (case snd rq of None \<Rightarrow> False | Some a \<Rightarrow> requested_move a \<noteq> None)))"

definition valid_pending :: "'w queues \<Rightarrow> color \<Rightarrow> 'w \<Rightarrow> bool" where
  "valid_pending Q c w =
     (case pending Q c w of None \<Rightarrow> True | Some (rq, w2) \<Rightarrow> valid_request rq)"

text \<open>
  What the entry of \<open>responses\<close> at the command of a request does, with its parts told apart:
  the calls of the game it makes, the response it puts on the ``to player'' queue, and the
  world the calls of the game leave. \<open>own\<close> is \<^verbatim>\<open>on_own_turn\<close>. A command that is no key of
  the table raises \<^verbatim>\<open>KeyError\<close>; \<^verbatim>\<open>sense\<close> and \<^verbatim>\<open>move\<close> read \<^verbatim>\<open>request[1]\<close> only on the
  requester's own turn.
\<close>

definition answer ::
  "'w game \<Rightarrow> color \<Rightarrow> request \<Rightarrow> 'w \<Rightarrow> py_error + event list \<times> response \<times> 'w" where
  "answer G c rq w =
     (let cmd = fst rq; own = (turn G w = c)
      in if cmd = ''color'' then Inr ([], R_color c, w)
         else if cmd = ''starting_board'' then Inr ([], R_board chess_Board, w)
         else if cmd = ''opponent_name'' then
           Inr ([], R_opponent_name
                  (if c = WHITE then fst (player_names G w) else snd (player_names G w)), w)
         else if cmd = ''sense_actions'' then
           (if own
            then Inr ([Game_sense_actions], R_sense_actions (Some (fst (sense_actions G w))),
                      snd (sense_actions G w))
            else Inr ([], R_sense_actions None, w))
         else if cmd = ''move_actions'' then
           (if own
            then Inr ([Game_move_actions], R_move_actions (Some (fst (move_actions G w))),
                      snd (move_actions G w))
            else Inr ([], R_move_actions None, w))
         else if cmd = ''seconds_left'' then
           (if own
            then Inr ([Game_get_seconds_left], R_seconds_left (fst (get_seconds_left G w)),
                      snd (get_seconds_left G w))
            else Inr ([], R_seconds_left (seconds_left_by_color G w c), w))
         else if cmd = ''ready'' then Inr ([], R_ready, w)
         else if cmd = ''is_my_turn'' then
           (if own then Inr ([], R_is_my_turn True, w)
            else Inr ([Game_is_over (fst (is_over G w))], R_is_my_turn (fst (is_over G w)),
                      snd (is_over G w)))
         else if cmd = ''opponent_move_results'' then
           (if own
            then Inr ([Game_opponent_move_results],
                      R_opponent_move_results (fst (opponent_move_results G w)),
                      snd (opponent_move_results G w))
            else Inr ([], R_opponent_move_results None, w))
         else if cmd = ''sense'' then
           (if own
            then (case snd rq of
                    None \<Rightarrow> Inl IndexError
                  | Some args \<Rightarrow>
                      (case square args of
                         None \<Rightarrow> Inl KeyError
                       | Some sq \<Rightarrow>
                           Inr ([Game_sense sq], R_sense_result (Some (fst (sense G sq w))),
                                snd (sense G sq w))))
            else Inr ([], R_sense_result None, w))
         else if cmd = ''move'' then
           (if own
            then (case snd rq of
                    None \<Rightarrow> Inl IndexError
                  | Some args \<Rightarrow>
                      (case requested_move args of
                         None \<Rightarrow> Inl KeyError
                       | Some mv \<Rightarrow>
                           Inr ([Game_move mv], R_move_result (Some (fst (move G mv w))),
                                snd (move G mv w))))
            else Inr ([], R_move_result None, w))
         else if cmd = ''end_turn'' then
           (if own then Inr ([Game_end_turn], R_end_turn, end_turn G w)
            else Inr ([], R_None, w))
         else if cmd = ''game_status'' then
           Inr ([Game_is_over (fst (is_over G w))], R_game_status (fst (is_over G w)) own,
                snd (is_over G w))
         else if cmd = ''winner_color'' then
           Inr ([Game_get_winner_color], R_winner_color (fst (get_winner_color G w)),
                snd (get_winner_color G w))
         else if cmd = ''win_reason'' then
           Inr ([Game_get_win_reason], R_win_reason (fst (get_win_reason G w)),
                snd (get_win_reason G w))
         else if cmd = ''game_history'' then
           Inr ([Game_get_game_history], R_game_history (fst (get_game_history G w)),
                snd (get_game_history G w))
         else Inl KeyError)"

text \<open>
  One colour's part of a call of \<^verbatim>\<open>_respond_to_requests\<close>, as the world it leaves and the calls
  it makes: the queue is asked whether it is empty; when it is, nothing more; when it is not,
  one request is taken, answered as \<open>answer\<close> says, and the one response is put on the same
  colour's ``to player'' queue. \<open>poll_round\<close> is White's part followed by Black's, one call of
  \<^verbatim>\<open>_respond_to_requests\<close>.
\<close>

definition served ::
  "'w game \<Rightarrow> 'w queues \<Rightarrow> color \<Rightarrow> 'w \<Rightarrow> py_error + 'w \<times> event list" where
  "served G Q c w =
     (case pending Q c w of
        None \<Rightarrow> Inr (snd (to_moderator_empty Q c w), [Queue_empty c True])
      | Some (rq, w2) \<Rightarrow>
          (case answer G c rq w2 of
             Inl e \<Rightarrow> Inl e
           | Inr (calls, r, w3) \<Rightarrow>
               Inr (to_player_put Q c r w3,
                    [Queue_empty c False, Queue_get c rq] @ calls @ [Queue_put c r])))"

definition poll_round :: "'w game \<Rightarrow> 'w queues \<Rightarrow> 'w \<Rightarrow> py_error + 'w \<times> event list" where
  "poll_round G Q w =
     (case served G Q WHITE w of
        Inl e \<Rightarrow> Inl e
      | Inr (w1, ew) \<Rightarrow>
          (case served G Q BLACK w1 of
             Inl e \<Rightarrow> Inl e
           | Inr (w2, eb) \<Rightarrow> Inr (w2, ew @ eb)))"

text \<open>
  The shape of one colour's part in the log: one \<^verbatim>\<open>empty()\<close> that answers true and nothing
  more, or one \<^verbatim>\<open>empty()\<close> that answers false, one \<^verbatim>\<open>get()\<close>, calls of the game only, and one
  \<^verbatim>\<open>put\<close> on the same colour's ``to player'' queue.
\<close>

definition exchange :: "color \<Rightarrow> event list \<Rightarrow> bool" where
  "exchange c es =
     (es = [Queue_empty c True]
      \<or> (\<exists>rq calls r. es = [Queue_empty c False, Queue_get c rq] @ calls @ [Queue_put c r]
            \<and> list_all is_game_call calls))"

text \<open>
  The environment of the two loops of \<^verbatim>\<open>play_multiprocessing_local_game\<close>.
  \<open>served_until_over n G Q w\<close>: from the world \<open>w\<close>, \<^verbatim>\<open>game.is_over()\<close> answers false \<open>n\<close> times,
  each time followed by a round of service that raises nothing, and then answers true; the
  result is the world at that moment and the calls made. \<open>served_while_alive n G Q PR w\<close>: in
  \<open>n\<close> rounds of \<^verbatim>\<open>is_alive()\<close> one of the two processes lives, each followed by a round of
  service that raises nothing, and in the next round both have exited. Both are \<open>None\<close> when
  the world does not behave so.
\<close>

primrec served_until_over ::
  "nat \<Rightarrow> 'w game \<Rightarrow> 'w queues \<Rightarrow> 'w \<Rightarrow> ('w \<times> event list) option" where
  "served_until_over 0 G Q w =
     (let (over, w1) = is_over G w
      in if over then Some (w1, [Game_is_over True]) else None)"
| "served_until_over (Suc n) G Q w =
     (let (over, w1) = is_over G w
      in if over then None
         else (case poll_round G Q w1 of
                 Inl e \<Rightarrow> None
               | Inr (w2, es) \<Rightarrow>
                   (case served_until_over n G Q w2 of
                      None \<Rightarrow> None
                    | Some (w', rest) \<Rightarrow> Some (w', Game_is_over False # es @ rest))))"

primrec served_while_alive ::
  "nat \<Rightarrow> 'w game \<Rightarrow> 'w queues \<Rightarrow> 'w processes \<Rightarrow> 'w \<Rightarrow> ('w \<times> event list) option" where
  "served_while_alive 0 G Q PR w =
     (let (alive0, w1) = process_is_alive PR 0 w;
          (alive1, w2) = process_is_alive PR 1 w1
      in if alive0 \<or> alive1 then None
         else Some (w2, [Process_is_alive 0 False, Process_is_alive 1 False]))"
| "served_while_alive (Suc n) G Q PR w =
     (let (alive0, w1) = process_is_alive PR 0 w;
          (alive1, w2) = process_is_alive PR 1 w1
      in if alive0 \<or> alive1
         then (case poll_round G Q w2 of
                 Inl e \<Rightarrow> None
               | Inr (w3, es) \<Rightarrow>
                   (case served_while_alive n G Q PR w3 of
                      None \<Rightarrow> None
                    | Some (w', rest) \<Rightarrow>
                        Some (w', Process_is_alive 0 alive0 # Process_is_alive 1 alive1 #
                                  es @ rest)))
         else None)"

text \<open>
  The number of calls of \<^verbatim>\<open>_respond_to_requests\<close> in a log: each call asks White's
  ``to moderator'' queue once whether it is empty.
\<close>

definition is_round :: "event \<Rightarrow> bool" where
  "is_round e = (case e of Queue_empty c b \<Rightarrow> c = WHITE | _ \<Rightarrow> False)"

definition rounds :: "event list \<Rightarrow> nat" where
  "rounds es = length (filter is_round es)"

section \<open>Whole games\<close>

text \<open>
  In \<^verbatim>\<open>play_local_game\<close> the agent of a turn is the player of colour \<^verbatim>\<open>game.turn\<close>.
  \<open>played_until_over n G agent end_turn_last w\<close>: from the world \<open>w\<close>, \<^verbatim>\<open>game.is_over()\<close>
  answers false \<open>n\<close> times, each time followed by one \<^verbatim>\<open>play_turn\<close> of the agent that \<open>agent\<close>
  selects in the world at that moment, and then answers true; the result is the world at that
  moment and the calls made, and \<open>None\<close> when the game does not behave so. \<open>game_results\<close>
  reads the winner, the reason and the history, in this order.
\<close>

definition local_agent ::
  "'w game \<Rightarrow> 'w player \<Rightarrow> 'w player \<Rightarrow> 'w \<Rightarrow> string \<times> 'w player" where
  "local_agent G white_player black_player w =
     (if turn G w = WHITE then (''white_player'', white_player)
      else (''black_player'', black_player))"

primrec played_until_over ::
  "nat \<Rightarrow> 'w game \<Rightarrow> ('w \<Rightarrow> string \<times> 'w player) \<Rightarrow> bool \<Rightarrow> 'w \<Rightarrow>
     ('w \<times> event list) option" where
  "played_until_over 0 G agent end_turn_last w =
     (let (over, w1) = is_over G w
      in if over then Some (w1, [Game_is_over True]) else None)"
| "played_until_over (Suc n) G agent end_turn_last w =
     (let (over, w1) = is_over G w
      in if over then None
         else (let (p, P) = agent w1;
                   (w2, es) = play_turn (spy_game G) (spy_player p P) end_turn_last (w1, [])
               in case played_until_over n G agent end_turn_last w2 of
                    None \<Rightarrow> None
                  | Some (w', rest) \<Rightarrow> Some (w', Game_is_over False # es @ rest)))"

definition game_results ::
  "'w game \<Rightarrow> 'w \<Rightarrow> (color option \<times> win_reason option \<times> game_history) \<times> 'w" where
  "game_results G w =
     (let (winner_color, w1) = get_winner_color G w;
          (win_reason, w2) = get_win_reason G w1;
          (game_history, w3) = get_game_history G w2
      in ((winner_color, win_reason, game_history), w3))"

section \<open>An example world\<close>

text \<open>
  A small world on which the functions can be run: a game that is over after two half-moves
  and then reports its winner, reason and history, whose stored clocks are 900 and 850 seconds
  and whose running clock is one second less;
  players that always choose the same square and move; first-in first-out queues; and
  processes that answer ``alive'' a given number of times. \<^verbatim>\<open>Queue.get()\<close> waits when the
  queue is empty; the example answers a \<^verbatim>\<open>ready\<close> request there, and no run below asks it to.
\<close>

record example_world =
  ex_turn :: color
  ex_half_moves :: nat
  ex_names :: "string \<times> string"
  ex_white_requests :: "request list"
  ex_black_requests :: "request list"
  ex_white_responses :: "response list"
  ex_black_responses :: "response list"
  ex_alive_checks :: nat

definition example_history :: game_history where
  "example_history =
     [(Some 27, Some (Move 12 28 None), Some (Move 12 28 None), None),
      (Some 27, Some (Move 12 28 None), Some (Move 12 28 None), None)]"

definition example_game :: "example_world game" where
  "example_game = \<lparr>
     turn = ex_turn,
     board = (\<lambda>w. chess_Board),
     seconds_left_by_color = (\<lambda>w c. if c then 900 else 850),
     player_names = ex_names,
     set_player_names = (\<lambda>n w. w\<lparr>ex_names := n\<rparr>),
     store_players = (\<lambda>a b w. w),
     get_player_color = (\<lambda>w. (WHITE, w)),
     get_starting_board = (\<lambda>w. (chess_Board, w)),
     get_opponent_name = (\<lambda>w. (''BlackBot'', w)),
     start = (\<lambda>w. w),
     game_end = (\<lambda>w. w),
     is_over = (\<lambda>w. (2 \<le> ex_half_moves w, w)),
     sense_actions = (\<lambda>w. ([27, 28], w)),
     move_actions = (\<lambda>w. ([Move 12 28 None], w)),
     opponent_move_results = (\<lambda>w. (None, w)),
     sense = (\<lambda>sq w. (case sq of None \<Rightarrow> [] | Some s \<Rightarrow> [(s, None)], w)),
     move = (\<lambda>m w. ((m, m, None), w)),
     end_turn = (\<lambda>w. w\<lparr>ex_turn := \<not> ex_turn w, ex_half_moves := Suc (ex_half_moves w)\<rparr>),
     get_seconds_left = (\<lambda>w. (if ex_turn w then 899 else 849, w)),
     get_winner_color = (\<lambda>w. (if 2 \<le> ex_half_moves w then Some WHITE else None, w)),
     get_win_reason = (\<lambda>w. (if 2 \<le> ex_half_moves w then Some TIMEOUT else None, w)),
     get_game_history = (\<lambda>w. (if 2 \<le> ex_half_moves w then example_history else [], w)) \<rparr>"

text \<open>The same game as the player process of Black sees it.\<close>

definition example_black_game :: "example_world game" where
  "example_black_game = example_game\<lparr>
     get_player_color := (\<lambda>w. (BLACK, w)),
     get_opponent_name := (\<lambda>w. (''WhiteBot'', w))\<rparr>"

definition example_player :: "string \<Rightarrow> example_world player" where
  "example_player n = \<lparr>
     class_name = n,
     handle_game_start = (\<lambda>c b n w. w),
     handle_opponent_move_result = (\<lambda>c s w. w),
     choose_sense = (\<lambda>sa ma t w. (Some 27, w)),
     handle_sense_result = (\<lambda>r w. w),
     choose_move = (\<lambda>ma t w. (Some (Move 12 28 None), w)),
     handle_move_result = (\<lambda>r t c s w. w),
     handle_game_end = (\<lambda>c r h w. w) \<rparr>"

definition example_queues :: "example_world queues" where
  "example_queues = \<lparr>
     to_moderator_empty = (\<lambda>c w.
        ((if c then ex_white_requests w else ex_black_requests w) = [], w)),
     to_moderator_get = (\<lambda>c w.
        case (if c then ex_white_requests w else ex_black_requests w) of
          [] \<Rightarrow> ((''ready'', None), w)
        | r # rs \<Rightarrow>
            (r, if c then w\<lparr>ex_white_requests := rs\<rparr> else w\<lparr>ex_black_requests := rs\<rparr>)),
     to_player_put = (\<lambda>c r w.
        if c then w\<lparr>ex_white_responses := ex_white_responses w @ [r]\<rparr>
        else w\<lparr>ex_black_responses := ex_black_responses w @ [r]\<rparr>) \<rparr>"

definition example_processes :: "example_world processes" where
  "example_processes = \<lparr>
     process_start = (\<lambda>i w. w),
     process_is_alive = (\<lambda>i w.
        (0 < ex_alive_checks w, w\<lparr>ex_alive_checks := ex_alive_checks w - 1\<rparr>)) \<rparr>"

definition example_start :: example_world where
  "example_start = \<lparr> ex_turn = WHITE, ex_half_moves = 0, ex_names = ([], []),
     ex_white_requests = [], ex_black_requests = [],
     ex_white_responses = [], ex_black_responses = [], ex_alive_checks = 0 \<rparr>"

definition example_over :: example_world where
  "example_over = example_start\<lparr>ex_half_moves := 2\<rparr>"

definition a_move :: payload where
  "a_move = \<lparr>square = None, requested_move = Some (Some (Move 12 28 None))\<rparr>"

definition a_sense :: payload where
  "a_sense = \<lparr>square = Some (Some 27), requested_move = None\<rparr>"

definition no_sense :: payload where
  "no_sense = \<lparr>square = Some None, requested_move = None\<rparr>"

definition example_mediation :: example_world where
  "example_mediation = example_start\<lparr>
     ex_white_requests := [(''end_turn'', None), (''winner_color'', None), (''win_reason'', None)],
     ex_black_requests := [(''end_turn'', None), (''game_history'', None)],
     ex_alive_checks := 4\<rparr>"

section \<open>What the wrapped collaborators do\<close>

lemma spy_game_sel:
  "turn (spy_game G) (w, l) = turn G w"
  "board (spy_game G) (w, l) = board G w"
  "seconds_left_by_color (spy_game G) (w, l) = seconds_left_by_color G w"
  "player_names (spy_game G) (w, l) = player_names G w"
  "set_player_names (spy_game G) n (w, l) = (set_player_names G n w, l @ [Game_set_player_names n])"
  "store_players (spy_game G) a b (w, l) = (store_players G a b w, l @ [Game_store_players a b])"
  "get_player_color (spy_game G) (w, l) =
     (case get_player_color G w of (r, w') \<Rightarrow> (r, w', l @ [Game_get_player_color]))"
  "get_starting_board (spy_game G) (w, l) =
     (case get_starting_board G w of (r, w') \<Rightarrow> (r, w', l @ [Game_get_starting_board]))"
  "get_opponent_name (spy_game G) (w, l) =
     (case get_opponent_name G w of (r, w') \<Rightarrow> (r, w', l @ [Game_get_opponent_name]))"
  "start (spy_game G) (w, l) = (start G w, l @ [Game_start])"
  "game_end (spy_game G) (w, l) = (game_end G w, l @ [Game_end])"
  "is_over (spy_game G) (w, l) =
     (case is_over G w of (r, w') \<Rightarrow> (r, w', l @ [Game_is_over r]))"
  "sense_actions (spy_game G) (w, l) =
     (case sense_actions G w of (sa, w') \<Rightarrow> (sa, w', l @ [Game_sense_actions]))"
  "move_actions (spy_game G) (w, l) =
     (case move_actions G w of (ma, w') \<Rightarrow> (ma, w', l @ [Game_move_actions]))"
  "opponent_move_results (spy_game G) (w, l) =
     (case opponent_move_results G w of (r, w') \<Rightarrow> (r, w', l @ [Game_opponent_move_results]))"
  "sense (spy_game G) sq (w, l) =
     (case sense G sq w of (r, w') \<Rightarrow> (r, w', l @ [Game_sense sq]))"
  "move (spy_game G) m (w, l) =
     (case move G m w of (r, w') \<Rightarrow> (r, w', l @ [Game_move m]))"
  "end_turn (spy_game G) (w, l) = (end_turn G w, l @ [Game_end_turn])"
  "get_seconds_left (spy_game G) (w, l) =
     (case get_seconds_left G w of (r, w') \<Rightarrow> (r, w', l @ [Game_get_seconds_left]))"
  "get_winner_color (spy_game G) (w, l) =
     (case get_winner_color G w of (r, w') \<Rightarrow> (r, w', l @ [Game_get_winner_color]))"
  "get_win_reason (spy_game G) (w, l) =
     (case get_win_reason G w of (r, w') \<Rightarrow> (r, w', l @ [Game_get_win_reason]))"
  "get_game_history (spy_game G) (w, l) =
     (case get_game_history G w of (r, w') \<Rightarrow> (r, w', l @ [Game_get_game_history]))"
  by (simp_all add: spy_game_def logged_def logged_unit_def logged_unit_def)

lemma spy_player_sel:
  "class_name (spy_player p P) = class_name P"
  "handle_game_start (spy_player p P) c b n (w, l) =
     (handle_game_start P c b n w, l @ [Player_handle_game_start p c b n])"
  "handle_opponent_move_result (spy_player p P) cp s (w, l) =
     (handle_opponent_move_result P cp s w, l @ [Player_handle_opponent_move_result p cp s])"
  "choose_sense (spy_player p P) sa ma t (w, l) =
     (case choose_sense P sa ma t w of (r, w') \<Rightarrow> (r, w', l @ [Player_choose_sense p sa ma t]))"
  "handle_sense_result (spy_player p P) res (w, l) =
     (handle_sense_result P res w, l @ [Player_handle_sense_result p res])"
  "choose_move (spy_player p P) ma t (w, l) =
     (case choose_move P ma t w of (r, w') \<Rightarrow> (r, w', l @ [Player_choose_move p ma t]))"
  "handle_move_result (spy_player p P) rq tk cp s (w, l) =
     (handle_move_result P rq tk cp s w, l @ [Player_handle_move_result p rq tk cp s])"
  "handle_game_end (spy_player p P) wc wr h (w, l) =
     (handle_game_end P wc wr h w, l @ [Player_handle_game_end p wc wr h])"
  by (simp_all add: spy_player_def logged_def logged_unit_def)

lemma spy_queues_sel:
  "to_moderator_empty (spy_queues Q) c (w, l) =
     (case to_moderator_empty Q c w of (b, w') \<Rightarrow> (b, w', l @ [Queue_empty c b]))"
  "to_moderator_get (spy_queues Q) c (w, l) =
     (case to_moderator_get Q c w of (r, w') \<Rightarrow> (r, w', l @ [Queue_get c r]))"
  "to_player_put (spy_queues Q) c r (w, l) = (to_player_put Q c r w, l @ [Queue_put c r])"
  by (simp_all add: spy_queues_def logged_unit_def)

lemma spy_processes_sel:
  "process_start (spy_processes PR) i (w, l) = (process_start PR i w, l @ [Process_start i])"
  "process_is_alive (spy_processes PR) i (w, l) =
     (case process_is_alive PR i w of (b, w') \<Rightarrow> (b, w', l @ [Process_is_alive i b]))"
  by (simp_all add: spy_processes_def logged_unit_def)

lemmas spy_sel = spy_game_sel spy_player_sel spy_queues_sel spy_processes_sel

lemmas example_defs = example_game_def example_black_game_def example_player_def
  example_queues_def
  example_processes_def example_start_def example_over_def example_mediation_def
  a_move_def a_sense_def no_sense_def example_history_def

section \<open>The calls of the turn engine\<close>

text \<open>
  Running a function of the turn engine on wrapped collaborators gives the world that the
  function gives on the collaborators themselves, and the log grown by the calls made.
\<close>

lemma notify_log:
  "notify_opponent_move_results (spy_game G) (spy_player p P) (w, l) =
     (notify_opponent_move_results G P w,
      l @ (let (opt, w1) = opponent_move_results G w
           in [Game_opponent_move_results,
               Player_handle_opponent_move_result p (opt \<noteq> None) opt]))"
  by (simp add: notify_opponent_move_results_def spy_sel split: prod.splits)

lemma play_sense_log:
  "play_sense (spy_game G) (spy_player p P) sa ma (w, l) =
     (play_sense G P sa ma w,
      l @ (let (secs, w1) = get_seconds_left G w;
               (sq, w2) = choose_sense P sa ma secs w1;
               (res, w3) = sense G sq w2
           in [Game_get_seconds_left, Player_choose_sense p sa ma secs, Game_sense sq,
               Player_handle_sense_result p res]))"
  by (simp add: play_sense_def spy_sel split: prod.splits)

lemma play_move_log:
  "play_move (spy_game G) (spy_player p P) ma etl (w, l) =
     (play_move G P ma etl w,
      l @ (let (secs, w1) = get_seconds_left G w;
               (mv, w2) = choose_move P ma secs w1;
               ((rq, tk, cap), w3) = move G mv w2
           in [Game_get_seconds_left, Player_choose_move p ma secs, Game_move mv] @
              (if etl
               then [Player_handle_move_result p rq tk (cap \<noteq> None) cap, Game_end_turn]
               else [Game_end_turn, Player_handle_move_result p rq tk (cap \<noteq> None) cap])))"
  by (simp add: play_move_def spy_sel split: prod.splits)

lemma play_turn_log:
  "play_turn (spy_game G) (spy_player p P) etl (w, l) =
     (play_turn G P etl w,
      l @ (let (sa, w1) = sense_actions G w;
               (ma, w2) = move_actions G w1;
               (opt, w3) = opponent_move_results G w2;
               w4 = notify_opponent_move_results G P w2;
               (secs, w5) = get_seconds_left G w4;
               (sq, w6) = choose_sense P sa ma secs w5;
               (res, w7) = sense G sq w6;
               w8 = play_sense G P sa ma w4;
               (secs', w9) = get_seconds_left G w8;
               (mv, w10) = choose_move P ma secs' w9;
               ((rq, tk, cap), w11) = move G mv w10
           in [Game_sense_actions, Game_move_actions,
               Game_opponent_move_results,
               Player_handle_opponent_move_result p (opt \<noteq> None) opt,
               Game_get_seconds_left, Player_choose_sense p sa ma secs, Game_sense sq,
               Player_handle_sense_result p res,
               Game_get_seconds_left, Player_choose_move p ma secs', Game_move mv] @
              (if etl then [Player_handle_move_result p rq tk (cap \<noteq> None) cap, Game_end_turn]
               else [Game_end_turn, Player_handle_move_result p rq tk (cap \<noteq> None) cap])))"
  unfolding play_turn_def
  by (simp add: notify_log play_sense_log play_move_log spy_sel
        split: prod.splits)

lemma play_turn_log_from:
  "play_turn (spy_game G) (spy_player p P) etl (w, l) =
     (fst (play_turn (spy_game G) (spy_player p P) etl (w, [])),
      l @ snd (play_turn (spy_game G) (spy_player p P) etl (w, [])))"
  by (simp add: play_turn_log)

text \<open>
  C1. The claim: in \<^verbatim>\<open>play_turn\<close> the call \<^verbatim>\<open>game.opponent_move_results()\<close> comes first, before
  \<^verbatim>\<open>game.sense_actions()\<close> and \<^verbatim>\<open>game.move_actions()\<close>. The code asks for the two action lists
  first: in the example world \<^verbatim>\<open>opponent_move_results\<close> is called before neither of them.
\<close>

theorem play_turn_opponent_move_results_not_first:
  "\<not> (let tr = snd (play_turn (spy_game example_game)
                     (spy_player ''white_player'' (example_player ''WhiteBot'')) False
                     (example_start, []))
      in called_before Game_opponent_move_results Game_sense_actions tr
         \<and> called_before Game_opponent_move_results Game_move_actions tr)"
  by (simp add: play_turn_log called_before_def first_call_def Let_def split: prod.splits)

text \<open>
  C1, as the code has it. For every game, player and world, the first four calls of
  \<^verbatim>\<open>play_turn\<close> are \<^verbatim>\<open>game.sense_actions()\<close>, \<^verbatim>\<open>game.move_actions()\<close>,
  \<^verbatim>\<open>game.opponent_move_results()\<close> and the delivery of its result to
  \<^verbatim>\<open>player.handle_opponent_move_result\<close>: the two action lists are asked for before the
  opponent's move result, which is delivered before the player is asked for a sense.
\<close>

theorem play_turn_actions_then_opponent_move_results:
  "let tr = snd (play_turn (spy_game G) (spy_player p P) etl (w, []));
       opt = fst (opponent_move_results G (snd (move_actions G (snd (sense_actions G w)))))
   in take 4 tr = [Game_sense_actions, Game_move_actions, Game_opponent_move_results,
                   Player_handle_opponent_move_result p (opt \<noteq> None) opt]
      \<and> called_before Game_sense_actions Game_opponent_move_results tr
      \<and> called_before Game_move_actions Game_opponent_move_results tr"
  by (simp add: play_turn_log called_before_def first_call_def Let_def split: prod.splits)

text \<open>
  C4. In \<^verbatim>\<open>play_move\<close>, with \<^verbatim>\<open>end_turn_last=False\<close> the call \<^verbatim>\<open>game.end_turn()\<close> comes right
  after \<^verbatim>\<open>game.move(...)\<close> and before \<^verbatim>\<open>player.handle_move_result(...)\<close>; with
  \<^verbatim>\<open>end_turn_last=True\<close> it comes after \<^verbatim>\<open>player.handle_move_result(...)\<close>; and every
  invocation calls \<^verbatim>\<open>game.end_turn()\<close> exactly once.
\<close>

theorem play_move_end_turn_once:
  "let tr = snd (play_move (spy_game G) (spy_player p P) ma etl (w, []))
   in length (filter (\<lambda>e. e = Game_end_turn) tr) = 1
      \<and> (\<exists>secs mv rq tk cap. tr =
            [Game_get_seconds_left, Player_choose_move p ma secs, Game_move mv] @
            (if etl
             then [Player_handle_move_result p rq tk (cap \<noteq> None) cap, Game_end_turn]
             else [Game_end_turn, Player_handle_move_result p rq tk (cap \<noteq> None) cap]))"
  by (auto simp add: play_move_log Let_def split: prod.splits)

text \<open>
  C10. \<^verbatim>\<open>play_turn\<close> calls \<^verbatim>\<open>game.sense_actions()\<close> and \<^verbatim>\<open>game.move_actions()\<close> exactly once
  each, as its first two calls, and the list of moves it got there is the one it passes both
  to \<^verbatim>\<open>choose_sense\<close> and to \<^verbatim>\<open>choose_move\<close>: the moves are those of before the notification
  and the sense, and are not asked for again.
\<close>

theorem play_turn_one_snapshot:
  "let tr = snd (play_turn (spy_game G) (spy_player p P) etl (w, []));
       sa = fst (sense_actions G w);
       ma = fst (move_actions G (snd (sense_actions G w)))
   in length (filter (\<lambda>e. e = Game_sense_actions) tr) = 1
      \<and> length (filter (\<lambda>e. e = Game_move_actions) tr) = 1
      \<and> take 2 tr = [Game_sense_actions, Game_move_actions]
      \<and> (\<exists>s1 s2. filter is_choice tr =
            [Player_choose_sense p sa ma s1, Player_choose_move p ma s2])"
  by (auto simp add: play_turn_log is_choice_def Let_def split: prod.splits)

section \<open>One request of one colour\<close>

text \<open>What each command does, on the collaborators and on the wrapped ones.\<close>

lemma dispatch:
  "run_response G Q c rq own ''color'' w =
     Inr (to_player_put Q c (R_color c) w)"
  "run_response G Q c rq own ''starting_board'' w =
     Inr (to_player_put Q c (R_board chess_Board) w)"
  "run_response G Q c rq own ''opponent_name'' w =
     Inr (to_player_put Q c
        (R_opponent_name (if \<not> c then snd (player_names G w) else fst (player_names G w))) w)"
  "run_response G Q c rq own ''sense_actions'' w =
     (if own
      then (let (acts, w1) = sense_actions G w
            in Inr (to_player_put Q c (R_sense_actions (Some acts)) w1))
      else Inr (to_player_put Q c (R_sense_actions None) w))"
  "run_response G Q c rq own ''move_actions'' w =
     (if own
      then (let (acts, w1) = move_actions G w
            in Inr (to_player_put Q c (R_move_actions (Some acts)) w1))
      else Inr (to_player_put Q c (R_move_actions None) w))"
  "run_response G Q c rq own ''seconds_left'' w =
     (if own
      then (let (secs, w1) = get_seconds_left G w
            in Inr (to_player_put Q c (R_seconds_left secs) w1))
      else Inr (to_player_put Q c (R_seconds_left (seconds_left_by_color G w c)) w))"
  "run_response G Q c rq own ''ready'' w =
     Inr (to_player_put Q c R_ready w)"
  "run_response G Q c rq own ''is_my_turn'' w =
     (if own then Inr (to_player_put Q c (R_is_my_turn True) w)
      else (let (over, w1) = is_over G w
            in Inr (to_player_put Q c (R_is_my_turn over) w1)))"
  "run_response G Q c rq own ''opponent_move_results'' w =
     (if own
      then (let (opt, w1) = opponent_move_results G w
            in Inr (to_player_put Q c (R_opponent_move_results opt) w1))
      else Inr (to_player_put Q c (R_opponent_move_results None) w))"
  "run_response G Q c rq own ''sense'' w =
     (if own
      then (case snd rq of
              None \<Rightarrow> Inl IndexError
            | Some args \<Rightarrow>
                (case square args of
                   None \<Rightarrow> Inl KeyError
                 | Some sq \<Rightarrow>
                     (let (res, w1) = sense G sq w
                      in Inr (to_player_put Q c (R_sense_result (Some res)) w1))))
      else Inr (to_player_put Q c (R_sense_result None) w))"
  "run_response G Q c rq own ''move'' w =
     (if own
      then (case snd rq of
              None \<Rightarrow> Inl IndexError
            | Some args \<Rightarrow>
                (case requested_move args of
                   None \<Rightarrow> Inl KeyError
                 | Some mv \<Rightarrow>
                     (let (res, w1) = move G mv w
                      in Inr (to_player_put Q c (R_move_result (Some res)) w1))))
      else Inr (to_player_put Q c (R_move_result None) w))"
  "run_response G Q c rq own ''end_turn'' w =
     (if own then Inr (to_player_put Q c R_end_turn (end_turn G w))
      else Inr (to_player_put Q c R_None w))"
  "run_response G Q c rq own ''game_status'' w =
     (let (over, w1) = is_over G w
      in Inr (to_player_put Q c (R_game_status over own) w1))"
  "run_response G Q c rq own ''winner_color'' w =
     (let (wc, w1) = get_winner_color G w
      in Inr (to_player_put Q c (R_winner_color wc) w1))"
  "run_response G Q c rq own ''win_reason'' w =
     (let (r, w1) = get_win_reason G w
      in Inr (to_player_put Q c (R_win_reason r) w1))"
  "run_response G Q c rq own ''game_history'' w =
     (let (h, w1) = get_game_history G w
      in Inr (to_player_put Q c (R_game_history h) w1))"
  by (simp_all add: run_response_def responses_def)

lemma dispatch_spy:
  "run_response (spy_game G) (spy_queues Q) c rq own ''color'' (w, l) =
     Inr (to_player_put Q c (R_color c) w, l @ [Queue_put c (R_color c)])"
  "run_response (spy_game G) (spy_queues Q) c rq own ''starting_board'' (w, l) =
     Inr (to_player_put Q c (R_board chess_Board) w, l @ [Queue_put c (R_board chess_Board)])"
  "run_response (spy_game G) (spy_queues Q) c rq own ''opponent_name'' (w, l) =
     Inr (to_player_put Q c
            (R_opponent_name (if \<not> c then snd (player_names G w) else fst (player_names G w))) w,
          l @ [Queue_put c
            (R_opponent_name (if \<not> c then snd (player_names G w) else fst (player_names G w)))])"
  "run_response (spy_game G) (spy_queues Q) c rq own ''sense_actions'' (w, l) =
     (if own
      then (case sense_actions G w of (acts, w1) \<Rightarrow>
              Inr (to_player_put Q c (R_sense_actions (Some acts)) w1,
                   l @ [Game_sense_actions, Queue_put c (R_sense_actions (Some acts))]))
      else Inr (to_player_put Q c (R_sense_actions None) w,
                l @ [Queue_put c (R_sense_actions None)]))"
  "run_response (spy_game G) (spy_queues Q) c rq own ''move_actions'' (w, l) =
     (if own
      then (case move_actions G w of (acts, w1) \<Rightarrow>
              Inr (to_player_put Q c (R_move_actions (Some acts)) w1,
                   l @ [Game_move_actions, Queue_put c (R_move_actions (Some acts))]))
      else Inr (to_player_put Q c (R_move_actions None) w,
                l @ [Queue_put c (R_move_actions None)]))"
  "run_response (spy_game G) (spy_queues Q) c rq own ''seconds_left'' (w, l) =
     (if own
      then (case get_seconds_left G w of (secs, w1) \<Rightarrow>
              Inr (to_player_put Q c (R_seconds_left secs) w1,
                   l @ [Game_get_seconds_left, Queue_put c (R_seconds_left secs)]))
      else Inr (to_player_put Q c (R_seconds_left (seconds_left_by_color G w c)) w,
                l @ [Queue_put c (R_seconds_left (seconds_left_by_color G w c))]))"
  "run_response (spy_game G) (spy_queues Q) c rq own ''ready'' (w, l) =
     Inr (to_player_put Q c R_ready w, l @ [Queue_put c R_ready])"
  "run_response (spy_game G) (spy_queues Q) c rq own ''is_my_turn'' (w, l) =
     (if own
      then Inr (to_player_put Q c (R_is_my_turn True) w, l @ [Queue_put c (R_is_my_turn True)])
      else (case is_over G w of (over, w1) \<Rightarrow>
              Inr (to_player_put Q c (R_is_my_turn over) w1,
                   l @ [Game_is_over over, Queue_put c (R_is_my_turn over)])))"
  "run_response (spy_game G) (spy_queues Q) c rq own ''opponent_move_results'' (w, l) =
     (if own
      then (case opponent_move_results G w of (opt, w1) \<Rightarrow>
              Inr (to_player_put Q c (R_opponent_move_results opt) w1,
                   l @ [Game_opponent_move_results, Queue_put c (R_opponent_move_results opt)]))
      else Inr (to_player_put Q c (R_opponent_move_results None) w,
                l @ [Queue_put c (R_opponent_move_results None)]))"
  "run_response (spy_game G) (spy_queues Q) c rq own ''sense'' (w, l) =
     (if own
      then (case snd rq of
              None \<Rightarrow> Inl IndexError
            | Some args \<Rightarrow>
                (case square args of
                   None \<Rightarrow> Inl KeyError
                 | Some sq \<Rightarrow>
                     (case sense G sq w of (res, w1) \<Rightarrow>
                        Inr (to_player_put Q c (R_sense_result (Some res)) w1,
                             l @ [Game_sense sq, Queue_put c (R_sense_result (Some res))]))))
      else Inr (to_player_put Q c (R_sense_result None) w,
                l @ [Queue_put c (R_sense_result None)]))"
  "run_response (spy_game G) (spy_queues Q) c rq own ''move'' (w, l) =
     (if own
      then (case snd rq of
              None \<Rightarrow> Inl IndexError
            | Some args \<Rightarrow>
                (case requested_move args of
                   None \<Rightarrow> Inl KeyError
                 | Some mv \<Rightarrow>
                     (case move G mv w of (res, w1) \<Rightarrow>
                        Inr (to_player_put Q c (R_move_result (Some res)) w1,
                             l @ [Game_move mv, Queue_put c (R_move_result (Some res))]))))
      else Inr (to_player_put Q c (R_move_result None) w,
                l @ [Queue_put c (R_move_result None)]))"
  "run_response (spy_game G) (spy_queues Q) c rq own ''end_turn'' (w, l) =
     (if own
      then Inr (to_player_put Q c R_end_turn (end_turn G w),
                l @ [Game_end_turn, Queue_put c R_end_turn])
      else Inr (to_player_put Q c R_None w, l @ [Queue_put c R_None]))"
  "run_response (spy_game G) (spy_queues Q) c rq own ''game_status'' (w, l) =
     (case is_over G w of (over, w1) \<Rightarrow>
        Inr (to_player_put Q c (R_game_status over own) w1,
             l @ [Game_is_over over, Queue_put c (R_game_status over own)]))"
  "run_response (spy_game G) (spy_queues Q) c rq own ''winner_color'' (w, l) =
     (case get_winner_color G w of (wc, w1) \<Rightarrow>
        Inr (to_player_put Q c (R_winner_color wc) w1,
             l @ [Game_get_winner_color, Queue_put c (R_winner_color wc)]))"
  "run_response (spy_game G) (spy_queues Q) c rq own ''win_reason'' (w, l) =
     (case get_win_reason G w of (r, w1) \<Rightarrow>
        Inr (to_player_put Q c (R_win_reason r) w1,
             l @ [Game_get_win_reason, Queue_put c (R_win_reason r)]))"
  "run_response (spy_game G) (spy_queues Q) c rq own ''game_history'' (w, l) =
     (case get_game_history G w of (h, w1) \<Rightarrow>
        Inr (to_player_put Q c (R_game_history h) w1,
             l @ [Game_get_game_history, Queue_put c (R_game_history h)]))"
  by (simp_all add: dispatch spy_sel split: prod.splits option.splits)

lemma respond_pending:
  assumes "pending Q c w = Some ((cmd, args), w2)"
  shows "respond (spy_game G) (spy_queues Q) c (w, l) =
     run_response (spy_game G) (spy_queues Q) c (cmd, args) (turn G w2 = c) cmd
       (w2, l @ [Queue_empty c False, Queue_get c (cmd, args)])"
  using assms
  by (auto simp add: pending_def respond_def run_response_def spy_sel Let_def split: prod.splits if_splits option.splits)

lemma respond_nothing_pending:
  assumes "pending Q c w = None"
  shows "respond (spy_game G) (spy_queues Q) c (w, l) =
           Inr (snd (to_moderator_empty Q c w), l @ [Queue_empty c True])"
  using assms
  by (auto simp add: pending_def respond_def spy_sel Let_def split: prod.splits if_splits)

lemma respond_pending_plain:
  assumes "pending Q c w = Some ((cmd, args), w2)"
  shows "respond G Q c w =
     run_response G Q c (cmd, args) (turn G w2 = c) cmd w2"
  using assms
  by (auto simp add: pending_def respond_def run_response_def Let_def
        split: prod.splits if_splits option.splits)

lemma respond_nothing_pending_plain:
  assumes "pending Q c w = None"
  shows "respond G Q c w = Inr (snd (to_moderator_empty Q c w))"
  using assms
  by (auto simp add: pending_def respond_def Let_def split: prod.splits if_splits)

lemma unknown_command:
  "cmd \<notin> set commands \<Longrightarrow> run_response G Q c rq own cmd w = Inl KeyError"
  by (simp add: run_response_def responses_def commands_def)

lemma exchange_simps:
  "exchange c [Queue_empty c True]"
  "exchange c [Queue_empty c False, Queue_get c rq, Queue_put c r]"
  "is_game_call e \<Longrightarrow> exchange c [Queue_empty c False, Queue_get c rq, e, Queue_put c r]"
proof -
  show "exchange c [Queue_empty c True]" by (simp add: exchange_def)
  show "exchange c [Queue_empty c False, Queue_get c rq, Queue_put c r]"
    unfolding exchange_def
    by (intro disjI2 exI [of _ rq] exI [of _ "[]"] exI [of _ r]) simp
  assume e: "is_game_call e"
  then show "exchange c [Queue_empty c False, Queue_get c rq, e, Queue_put c r]"
    unfolding exchange_def
    by (intro disjI2 exI [of _ rq] exI [of _ "[e]"] exI [of _ r]) simp
qed

text \<open>
  C2. When the mediator takes a gated command (\<^verbatim>\<open>sense_actions\<close>, \<^verbatim>\<open>move_actions\<close>,
  \<^verbatim>\<open>opponent_move_results\<close>, \<^verbatim>\<open>sense\<close>, \<^verbatim>\<open>move\<close>) from the colour whose turn it is not,
  the response it puts on that colour's ``to player'' queue carries \<^verbatim>\<open>None\<close>, and it calls no
  method of the game: the log holds the three queue calls only, and the world is the one the
  queue calls leave, so the state of the game is unchanged.
\<close>

theorem gated_command_off_turn:
  assumes "pending Q c w = Some ((cmd, args), w2)"
    and "turn G w2 \<noteq> c"
    and "cmd \<in> set gated_commands"
  shows "respond (spy_game G) (spy_queues Q) c (w, l) =
           Inr (to_player_put Q c (not_available cmd) w2,
                l @ [Queue_empty c False, Queue_get c (cmd, args),
                     Queue_put c (not_available cmd)])"
proof -
  from assms(3) consider "cmd = ''sense_actions''" | "cmd = ''move_actions''"
    | "cmd = ''opponent_move_results''" | "cmd = ''sense''" | "cmd = ''move''"
    by (auto simp add: gated_commands_def)
  then show ?thesis
  proof cases
    case 1
    with assms(2) show ?thesis
      by (simp add: respond_pending [OF assms(1)] dispatch not_available_def spy_sel)
  next
    case 2
    with assms(2) show ?thesis
      by (simp add: respond_pending [OF assms(1)] dispatch not_available_def spy_sel)
  next
    case 3
    with assms(2) show ?thesis
      by (simp add: respond_pending [OF assms(1)] dispatch not_available_def spy_sel)
  next
    case 4
    with assms(2) show ?thesis
      by (simp add: respond_pending [OF assms(1)] dispatch not_available_def spy_sel)
  next
    case 5
    with assms(2) show ?thesis
      by (simp add: respond_pending [OF assms(1)] dispatch not_available_def spy_sel)
  qed
qed

theorem gated_command_off_turn_witness:
  "pending example_queues BLACK (example_start\<lparr>ex_black_requests := [(''move'', Some a_move)]\<rparr>) =
     Some ((''move'', Some a_move), example_start)
   \<and> turn example_game example_start \<noteq> BLACK
   \<and> ''move'' \<in> set gated_commands
   \<and> respond (spy_game example_game) (spy_queues example_queues) BLACK
        (example_start\<lparr>ex_black_requests := [(''move'', Some a_move)]\<rparr>, []) =
       Inr (example_start\<lparr>ex_black_responses := [R_move_result None]\<rparr>,
            [Queue_empty BLACK False, Queue_get BLACK (''move'', Some a_move),
             Queue_put BLACK (R_move_result None)])"
proof -
  have p: "pending example_queues BLACK
             (example_start\<lparr>ex_black_requests := [(''move'', Some a_move)]\<rparr>) =
           Some ((''move'', Some a_move), example_start)"
    by (simp add: pending_def example_defs)
  have t: "turn example_game example_start \<noteq> BLACK"
    by (simp add: example_defs)
  have g: "''move'' \<in> set gated_commands"
    by (simp add: gated_commands_def)
  from gated_command_off_turn [OF p t g, of "[]"] p t g show ?thesis
    by (simp add: not_available_def example_defs)
qed

text \<open>
  C7. For the command \<^verbatim>\<open>seconds_left\<close>: on the requesting colour's turn the mediator calls
  \<^verbatim>\<open>game.get_seconds_left()\<close> and answers with its result; off its turn it answers with
  \<^verbatim>\<open>game.seconds_left_by_color[color]\<close>, the requester's own stored clock, and does not call
  \<^verbatim>\<open>game.get_seconds_left()\<close>.
\<close>

theorem seconds_left_response:
  assumes "pending Q c w = Some ((''seconds_left'', args), w2)"
  shows "\<exists>w'. respond (spy_game G) (spy_queues Q) c (w, l) =
           Inr (w', l @ [Queue_empty c False, Queue_get c (''seconds_left'', args)] @
                    (if turn G w2 = c then [Game_get_seconds_left] else []) @
                    [Queue_put c (R_seconds_left
                       (if turn G w2 = c then fst (get_seconds_left G w2)
                        else seconds_left_by_color G w2 c))])"
  by (simp add: respond_pending [OF assms] dispatch spy_sel split: prod.splits)

theorem seconds_left_response_witness:
  "pending example_queues BLACK
     (example_start\<lparr>ex_black_requests := [(''seconds_left'', None)]\<rparr>) =
     Some ((''seconds_left'', None), example_start)
   \<and> (\<exists>w'. respond (spy_game example_game) (spy_queues example_queues) BLACK
              (example_start\<lparr>ex_black_requests := [(''seconds_left'', None)]\<rparr>, []) =
            Inr (w', [Queue_empty BLACK False, Queue_get BLACK (''seconds_left'', None),
                      Queue_put BLACK (R_seconds_left 850)]))
   \<and> pending example_queues WHITE
       (example_start\<lparr>ex_white_requests := [(''seconds_left'', None)]\<rparr>) =
       Some ((''seconds_left'', None), example_start)
   \<and> (\<exists>w'. respond (spy_game example_game) (spy_queues example_queues) WHITE
              (example_start\<lparr>ex_white_requests := [(''seconds_left'', None)]\<rparr>, []) =
            Inr (w', [Queue_empty WHITE False, Queue_get WHITE (''seconds_left'', None),
                      Game_get_seconds_left, Queue_put WHITE (R_seconds_left 899)]))"
proof -
  have b: "pending example_queues BLACK
             (example_start\<lparr>ex_black_requests := [(''seconds_left'', None)]\<rparr>) =
           Some ((''seconds_left'', None), example_start)"
    by (simp add: pending_def example_defs)
  have w: "pending example_queues WHITE
             (example_start\<lparr>ex_white_requests := [(''seconds_left'', None)]\<rparr>) =
           Some ((''seconds_left'', None), example_start)"
    by (simp add: pending_def example_defs)
  from seconds_left_response [OF b, of example_game "[]"]
    seconds_left_response [OF w, of example_game "[]"] b w
  show ?thesis
    by (simp add: example_defs)
qed

text \<open>
  C8. For the command \<^verbatim>\<open>end_turn\<close>: on the requesting colour's turn the mediator calls
  \<^verbatim>\<open>game.end_turn()\<close> and then puts the acknowledgement \<^verbatim>\<open>{'end_turn': 'done'}\<close>; off its turn
  it puts \<^verbatim>\<open>None\<close> and does not call \<^verbatim>\<open>game.end_turn()\<close>, so the turn does not advance.
\<close>

theorem end_turn_response:
  assumes "pending Q c w = Some ((''end_turn'', args), w2)"
  shows "respond (spy_game G) (spy_queues Q) c (w, l) =
           (if turn G w2 = c
            then Inr (to_player_put Q c R_end_turn (end_turn G w2),
                      l @ [Queue_empty c False, Queue_get c (''end_turn'', args),
                           Game_end_turn, Queue_put c R_end_turn])
            else Inr (to_player_put Q c R_None w2,
                      l @ [Queue_empty c False, Queue_get c (''end_turn'', args),
                           Queue_put c R_None]))"
  by (simp add: respond_pending [OF assms] dispatch spy_sel split: prod.splits)

theorem end_turn_response_witness:
  "pending example_queues WHITE (example_start\<lparr>ex_white_requests := [(''end_turn'', None)]\<rparr>) =
     Some ((''end_turn'', None), example_start)
   \<and> respond (spy_game example_game) (spy_queues example_queues) WHITE
        (example_start\<lparr>ex_white_requests := [(''end_turn'', None)]\<rparr>, []) =
       Inr (example_start\<lparr>ex_turn := BLACK, ex_half_moves := 1,
              ex_white_responses := [R_end_turn]\<rparr>,
            [Queue_empty WHITE False, Queue_get WHITE (''end_turn'', None),
             Game_end_turn, Queue_put WHITE R_end_turn])
   \<and> pending example_queues BLACK (example_start\<lparr>ex_black_requests := [(''end_turn'', None)]\<rparr>) =
       Some ((''end_turn'', None), example_start)
   \<and> respond (spy_game example_game) (spy_queues example_queues) BLACK
        (example_start\<lparr>ex_black_requests := [(''end_turn'', None)]\<rparr>, []) =
       Inr (example_start\<lparr>ex_black_responses := [R_None]\<rparr>,
            [Queue_empty BLACK False, Queue_get BLACK (''end_turn'', None),
             Queue_put BLACK R_None])"
proof -
  have w: "pending example_queues WHITE
             (example_start\<lparr>ex_white_requests := [(''end_turn'', None)]\<rparr>) =
           Some ((''end_turn'', None), example_start)"
    by (simp add: pending_def example_defs)
  have b: "pending example_queues BLACK
             (example_start\<lparr>ex_black_requests := [(''end_turn'', None)]\<rparr>) =
           Some ((''end_turn'', None), example_start)"
    by (simp add: pending_def example_defs)
  from end_turn_response [OF w, of example_game "[]"]
    end_turn_response [OF b, of example_game "[]"] w b
  show ?thesis
    by (simp add: example_defs)
qed

text \<open>
  C3. The claim: both the command \<^verbatim>\<open>is_my_turn\<close> and the field \<^verbatim>\<open>is_my_turn\<close> of the command
  \<^verbatim>\<open>game_status\<close> are true when it is the requester's turn or the game has ended. The field
  of \<^verbatim>\<open>game_status\<close> is not: when the game of the example is over and it is White's turn,
  Black's \<^verbatim>\<open>game_status\<close> is answered with \<^verbatim>\<open>is_over\<close> true and \<^verbatim>\<open>is_my_turn\<close> false.
\<close>

theorem game_status_is_my_turn_after_the_end:
  "fst (is_over example_game example_over)
   \<and> respond example_game example_queues BLACK
        (example_over\<lparr>ex_black_requests := [(''game_status'', None)]\<rparr>) =
       Inr (example_over\<lparr>ex_black_responses := [R_game_status True False]\<rparr>)
   \<and> status_is_my_turn (R_game_status True False) \<noteq>
       (turn example_game example_over = BLACK \<or> fst (is_over example_game example_over))"
  by (simp add: respond_def responses_def example_defs)

text \<open>
  C3, as the code has it. The command \<^verbatim>\<open>is_my_turn\<close> is answered with true when it is the
  requester's turn or the game has ended (\<^verbatim>\<open>game.is_over()\<close> is asked only when it is not the
  requester's turn). The command \<^verbatim>\<open>game_status\<close> is answered with the two facts apart:
  \<^verbatim>\<open>is_over\<close>, the answer of \<^verbatim>\<open>game.is_over()\<close>, and \<^verbatim>\<open>is_my_turn\<close>, true exactly when it is
  the requester's turn.
\<close>

theorem turn_ownership_response:
  assumes "pending Q c w = Some ((cmd, args), w2)"
    and "cmd = ''is_my_turn'' \<or> cmd = ''game_status''"
  shows "\<exists>w'. respond (spy_game G) (spy_queues Q) c (w, l) =
           Inr (w', l @ [Queue_empty c False, Queue_get c (cmd, args)] @
                    (if cmd = ''is_my_turn'' \<and> turn G w2 = c then []
                     else [Game_is_over (fst (is_over G w2))]) @
                    [Queue_put c
                       (if cmd = ''is_my_turn''
                        then R_is_my_turn (turn G w2 = c \<or> fst (is_over G w2))
                        else R_game_status (fst (is_over G w2)) (turn G w2 = c))])"
proof -
  from assms(2) show ?thesis
  proof
    assume cmd: "cmd = ''is_my_turn''"
    show ?thesis
    proof (cases "turn G w2 = c")
      case True
      with cmd have "respond (spy_game G) (spy_queues Q) c (w, l) =
           Inr (to_player_put Q c (R_is_my_turn True) w2,
                l @ [Queue_empty c False, Queue_get c (cmd, args)] @ [] @
                    [Queue_put c (R_is_my_turn True)])"
        by (simp add: respond_pending [OF assms(1)] dispatch_spy)
      with cmd True show ?thesis by simp
    next
      case False
      with cmd have "respond (spy_game G) (spy_queues Q) c (w, l) =
           Inr (to_player_put Q c (R_is_my_turn (fst (is_over G w2))) (snd (is_over G w2)),
                l @ [Queue_empty c False, Queue_get c (cmd, args)] @
                    [Game_is_over (fst (is_over G w2))] @
                    [Queue_put c (R_is_my_turn (fst (is_over G w2)))])"
        by (simp add: respond_pending [OF assms(1)] dispatch_spy split: prod.splits)
      with cmd False show ?thesis by simp
    qed
  next
    assume cmd: "cmd = ''game_status''"
    then have "respond (spy_game G) (spy_queues Q) c (w, l) =
           Inr (to_player_put Q c (R_game_status (fst (is_over G w2)) (turn G w2 = c))
                  (snd (is_over G w2)),
                l @ [Queue_empty c False, Queue_get c (cmd, args)] @
                    [Game_is_over (fst (is_over G w2))] @
                    [Queue_put c (R_game_status (fst (is_over G w2)) (turn G w2 = c))])"
      by (simp add: respond_pending [OF assms(1)] dispatch_spy split: prod.splits)
    with cmd show ?thesis by simp
  qed
qed

theorem turn_ownership_response_witness:
  "pending example_queues BLACK (example_over\<lparr>ex_black_requests := [(''is_my_turn'', None)]\<rparr>) =
     Some ((''is_my_turn'', None), example_over)
   \<and> (\<exists>w'. respond (spy_game example_game) (spy_queues example_queues) BLACK
              (example_over\<lparr>ex_black_requests := [(''is_my_turn'', None)]\<rparr>, []) =
            Inr (w', [Queue_empty BLACK False, Queue_get BLACK (''is_my_turn'', None),
                      Game_is_over True, Queue_put BLACK (R_is_my_turn True)]))
   \<and> pending example_queues BLACK (example_over\<lparr>ex_black_requests := [(''game_status'', None)]\<rparr>) =
       Some ((''game_status'', None), example_over)
   \<and> (\<exists>w'. respond (spy_game example_game) (spy_queues example_queues) BLACK
              (example_over\<lparr>ex_black_requests := [(''game_status'', None)]\<rparr>, []) =
            Inr (w', [Queue_empty BLACK False, Queue_get BLACK (''game_status'', None),
                      Game_is_over True, Queue_put BLACK (R_game_status True False)]))"
proof -
  have a: "pending example_queues BLACK
             (example_over\<lparr>ex_black_requests := [(''is_my_turn'', None)]\<rparr>) =
           Some ((''is_my_turn'', None), example_over)"
    by (simp add: pending_def example_defs)
  have b: "pending example_queues BLACK
             (example_over\<lparr>ex_black_requests := [(''game_status'', None)]\<rparr>) =
           Some ((''game_status'', None), example_over)"
    by (simp add: pending_def example_defs)
  from turn_ownership_response [OF a, of example_game "[]"]
    turn_ownership_response [OF b, of example_game "[]"] a b
  show ?thesis
    by (simp add: example_defs)
qed

section \<open>One call of the mediator's loop body\<close>

text \<open>
  What the table does at a command is what \<open>answer\<close> says, and one colour's part of the loop
  body is what \<open>served\<close> says, on the collaborators and on the wrapped ones.
\<close>

lemma answer_unknown:
  "cmd \<notin> set commands \<Longrightarrow> answer G c (cmd, args) w = Inl KeyError"
  by (simp add: answer_def commands_def)

lemma run_response_answer:
  "run_response (spy_game G) (spy_queues Q) c (cmd, args) (turn G w = c) cmd (w, l) =
     (case answer G c (cmd, args) w of
        Inl e \<Rightarrow> Inl e
      | Inr (calls, r, w1) \<Rightarrow> Inr (to_player_put Q c r w1, l @ calls @ [Queue_put c r]))"
proof (cases "cmd \<in> set commands")
  case False
  then show ?thesis by (simp add: unknown_command answer_unknown)
next
  case True
  then show ?thesis
    unfolding commands_def
    apply simp
    apply (elim disjE; hypsubst; simp only: dispatch_spy;
        simp add: answer_def split: prod.splits option.splits)
    done
qed

lemma run_response_answer_plain:
  "run_response G Q c (cmd, args) (turn G w = c) cmd w =
     (case answer G c (cmd, args) w of
        Inl e \<Rightarrow> Inl e
      | Inr (calls, r, w1) \<Rightarrow> Inr (to_player_put Q c r w1))"
proof (cases "cmd \<in> set commands")
  case False
  then show ?thesis by (simp add: unknown_command answer_unknown)
next
  case True
  then show ?thesis
    unfolding commands_def
    apply simp
    apply (elim disjE; hypsubst; simp only: dispatch;
        simp add: answer_def split: prod.splits option.splits)
    done
qed

lemma respond_served:
  "respond (spy_game G) (spy_queues Q) c (w, l) =
     (case served G Q c w of
        Inl e \<Rightarrow> Inl e
      | Inr (w1, es) \<Rightarrow> Inr (w1, l @ es))"
proof (cases "pending Q c w")
  case None
  then show ?thesis by (simp add: respond_nothing_pending served_def)
next
  case (Some a)
  then obtain cmd args w2 where p: "pending Q c w = Some ((cmd, args), w2)"
    by (cases a) auto
  show ?thesis
    by (simp add: respond_pending [OF p] run_response_answer served_def p
          split: sum.splits prod.splits)
qed

lemma respond_served_plain:
  "respond G Q c w = (case served G Q c w of Inl e \<Rightarrow> Inl e | Inr (w1, es) \<Rightarrow> Inr w1)"
proof (cases "pending Q c w")
  case None
  then show ?thesis by (simp add: respond_nothing_pending_plain served_def)
next
  case (Some a)
  then obtain cmd args w2 where p: "pending Q c w = Some ((cmd, args), w2)"
    by (cases a) auto
  show ?thesis
    by (simp add: respond_pending_plain [OF p] run_response_answer_plain served_def p
          split: sum.splits prod.splits)
qed

lemma respond_to_requests_poll_round:
  "respond_to_requests (spy_game G) (spy_queues Q) (w, l) =
     (case poll_round G Q w of
        Inl e \<Rightarrow> Inl e
      | Inr (w2, es) \<Rightarrow> Inr (w2, l @ es))"
  by (simp add: respond_to_requests_def COLORS_def respond_served poll_round_def
        split: sum.splits prod.splits)

lemma respond_to_requests_poll_round_plain:
  "respond_to_requests G Q w =
     (case poll_round G Q w of Inl e \<Rightarrow> Inl e | Inr (w2, es) \<Rightarrow> Inr w2)"
  by (simp add: respond_to_requests_def COLORS_def respond_served_plain poll_round_def
        split: sum.splits prod.splits)

lemma answer_game_calls:
  assumes "answer G c rq w = Inr (calls, r, w')"
  shows "list_all is_game_call calls"
proof (cases "fst rq \<in> set commands")
  case False
  with assms answer_unknown [of "fst rq" G c "snd rq" w] show ?thesis by simp
next
  case True
  then show ?thesis
    using assms
    unfolding commands_def
    apply simp
    apply (elim disjE; simp add: answer_def split: if_splits option.splits)
    apply (auto simp add: is_game_call_def)
    done
qed

lemma served_exchange:
  assumes "served G Q c w = Inr (w1, es)"
  shows "exchange c es"
proof (cases "pending Q c w")
  case None
  with assms show ?thesis by (auto simp add: served_def exchange_simps)
next
  case (Some a)
  then obtain rq w2 where p: "pending Q c w = Some (rq, w2)" by (cases a) auto
  with assms obtain calls r w3 where a: "answer G c rq w2 = Inr (calls, r, w3)"
    and es: "es = [Queue_empty c False, Queue_get c rq] @ calls @ [Queue_put c r]"
    by (auto simp add: served_def split: sum.splits)
  from answer_game_calls [OF a] es show ?thesis
    unfolding exchange_def by blast
qed

lemma answer_valid:
  assumes "valid_request rq"
  shows "\<exists>calls r w'. answer G c rq w = Inr (calls, r, w')"
  using assms
  unfolding valid_request_def commands_def
  apply (cases rq)
  apply simp
  apply (elim conjE disjE; hypsubst; auto simp add: answer_def split: option.splits)
  done

lemma served_valid:
  assumes "valid_pending Q c w"
  shows "\<exists>w1 es. served G Q c w = Inr (w1, es)"
proof (cases "pending Q c w")
  case None
  then show ?thesis by (simp add: served_def)
next
  case (Some a)
  then obtain rq w2 where p: "pending Q c w = Some (rq, w2)" by (cases a) auto
  with assms have "valid_request rq" by (simp add: valid_pending_def)
  from answer_valid [OF this, of G c w2] obtain calls r w3
    where "answer G c rq w2 = Inr (calls, r, w3)" by blast
  with p show ?thesis by (simp add: served_def)
qed

text \<open>
  C5. One call of \<^verbatim>\<open>_respond_to_requests\<close> looks at both colours' ``to moderator'' queues, White's
  then Black's, whatever the other holds. For each colour it asks whether the queue is empty;
  when it is, it does nothing more for that colour (it never calls \<^verbatim>\<open>get\<close> on a queue that
  answered ``empty'', so it does not wait); when it is not, it takes one request, makes the
  calls of the game that the table has at the command of the request, and puts the one
  response of that entry on that colour's ``to player'' queue: the calls and the response are
  those of \<open>answer\<close>. The precondition is the protocol of the peers: a pending request is a
  command of the table, and a \<^verbatim>\<open>sense\<close> or \<^verbatim>\<open>move\<close> carries its argument. (A request outside
  the protocol raises \<^verbatim>\<open>KeyError\<close> or \<^verbatim>\<open>IndexError\<close> before anything is put.)
\<close>

theorem respond_to_requests_exchanges:
  assumes "valid_pending Q WHITE w"
    and "\<forall>w1 ew. served G Q WHITE w = Inr (w1, ew) \<longrightarrow> valid_pending Q BLACK w1"
  shows "\<exists>w1 ew w2 eb.
           served G Q WHITE w = Inr (w1, ew) \<and> served G Q BLACK w1 = Inr (w2, eb)
         \<and> respond_to_requests (spy_game G) (spy_queues Q) (w, l) = Inr (w2, l @ ew @ eb)
         \<and> exchange WHITE ew \<and> exchange BLACK eb"
proof -
  from served_valid [OF assms(1)] obtain w1 ew
    where sw: "served G Q WHITE w = Inr (w1, ew)" by blast
  with assms(2) have "valid_pending Q BLACK w1" by blast
  from served_valid [OF this] obtain w2 eb
    where sb: "served G Q BLACK w1 = Inr (w2, eb)" by blast
  from sw sb have "respond_to_requests (spy_game G) (spy_queues Q) (w, l) = Inr (w2, l @ ew @ eb)"
    by (simp add: respond_to_requests_poll_round poll_round_def)
  with sw sb served_exchange [OF sw] served_exchange [OF sb] show ?thesis by blast
qed

theorem respond_to_requests_exchanges_witness:
  "valid_pending example_queues WHITE
     (example_start\<lparr>ex_white_requests := [(''end_turn'', None)],
                   ex_black_requests := [(''sense'', Some no_sense), (''move'', Some a_move)]\<rparr>)
   \<and> served example_game example_queues WHITE
       (example_start\<lparr>ex_white_requests := [(''end_turn'', None)],
                     ex_black_requests := [(''sense'', Some no_sense), (''move'', Some a_move)]\<rparr>) =
       Inr (example_start\<lparr>ex_turn := BLACK, ex_half_moves := 1,
              ex_black_requests := [(''sense'', Some no_sense), (''move'', Some a_move)],
              ex_white_responses := [R_end_turn]\<rparr>,
            [Queue_empty WHITE False, Queue_get WHITE (''end_turn'', None), Game_end_turn,
             Queue_put WHITE R_end_turn])
   \<and> valid_pending example_queues BLACK
       (example_start\<lparr>ex_turn := BLACK, ex_half_moves := 1,
          ex_black_requests := [(''sense'', Some no_sense), (''move'', Some a_move)],
          ex_white_responses := [R_end_turn]\<rparr>)
   \<and> (\<exists>w1 ew w2 eb.
         served example_game example_queues WHITE
           (example_start\<lparr>ex_white_requests := [(''end_turn'', None)],
              ex_black_requests := [(''sense'', Some no_sense), (''move'', Some a_move)]\<rparr>) =
           Inr (w1, ew)
         \<and> served example_game example_queues BLACK w1 = Inr (w2, eb)
         \<and> respond_to_requests (spy_game example_game) (spy_queues example_queues)
             (example_start\<lparr>ex_white_requests := [(''end_turn'', None)],
                ex_black_requests := [(''sense'', Some no_sense), (''move'', Some a_move)]\<rparr>, []) =
             Inr (w2, [] @ ew @ eb)
         \<and> exchange WHITE ew \<and> exchange BLACK eb)
   \<and> respond_to_requests (spy_game example_game) (spy_queues example_queues)
       (example_start\<lparr>ex_white_requests := [(''end_turn'', None)],
          ex_black_requests := [(''sense'', Some no_sense), (''move'', Some a_move)]\<rparr>, []) =
       Inr (example_start\<lparr>ex_turn := BLACK, ex_half_moves := 1,
              ex_black_requests := [(''move'', Some a_move)],
              ex_white_responses := [R_end_turn],
              ex_black_responses := [R_sense_result (Some [])]\<rparr>,
            [Queue_empty WHITE False, Queue_get WHITE (''end_turn'', None), Game_end_turn,
             Queue_put WHITE R_end_turn,
             Queue_empty BLACK False, Queue_get BLACK (''sense'', Some no_sense),
             Game_sense None, Queue_put BLACK (R_sense_result (Some []))])"
proof -
  let ?w = "example_start\<lparr>ex_white_requests := [(''end_turn'', None)],
              ex_black_requests := [(''sense'', Some no_sense), (''move'', Some a_move)]\<rparr>"
  let ?w1 = "example_start\<lparr>ex_turn := BLACK, ex_half_moves := 1,
              ex_black_requests := [(''sense'', Some no_sense), (''move'', Some a_move)],
              ex_white_responses := [R_end_turn]\<rparr>"
  let ?ew = "[Queue_empty WHITE False, Queue_get WHITE (''end_turn'', None), Game_end_turn,
             Queue_put WHITE R_end_turn]"
  have v: "valid_pending example_queues WHITE ?w"
    by (simp add: valid_pending_def valid_request_def commands_def pending_def example_defs)
  have s: "served example_game example_queues WHITE ?w = Inr (?w1, ?ew)"
    by (simp add: served_def answer_def pending_def example_defs)
  have v1: "valid_pending example_queues BLACK ?w1"
    by (simp add: valid_pending_def valid_request_def commands_def pending_def example_defs
          no_sense_def)
  from s v1 have h: "\<forall>w1 ew. served example_game example_queues WHITE ?w = Inr (w1, ew)
      \<longrightarrow> valid_pending example_queues BLACK w1"
    by simp
  have run: "respond_to_requests (spy_game example_game) (spy_queues example_queues) (?w, []) =
       Inr (example_start\<lparr>ex_turn := BLACK, ex_half_moves := 1,
              ex_black_requests := [(''move'', Some a_move)],
              ex_white_responses := [R_end_turn],
              ex_black_responses := [R_sense_result (Some [])]\<rparr>,
            [Queue_empty WHITE False, Queue_get WHITE (''end_turn'', None), Game_end_turn,
             Queue_put WHITE R_end_turn,
             Queue_empty BLACK False, Queue_get BLACK (''sense'', Some no_sense),
             Game_sense None, Queue_put BLACK (R_sense_result (Some []))])"
    by (simp add: respond_to_requests_def COLORS_def respond_def responses_def spy_sel
          example_defs no_sense_def)
  note c = respond_to_requests_exchanges [OF v h, of "[]"]
  show ?thesis
    apply (rule conjI [OF v])
    apply (rule conjI [OF s])
    apply (rule conjI [OF v1])
    apply (rule conjI [OF c])
    apply (rule run)
    done
qed

section \<open>The loops of the mediator\<close>

text \<open>
  When the world behaves as \<open>served_until_over\<close> and \<open>served_while_alive\<close> say, a loop whose
  bound is large enough returns, with the world and the calls they give.
\<close>

lemma moderate_until_over_served:
  "served_until_over n G Q w = Some (w', es) \<Longrightarrow> n < fuel \<Longrightarrow>
     moderate_until_over fuel (spy_game G) (spy_queues Q) (w, l) = Some (Inr (w', l @ es))"
proof (induction n arbitrary: w l fuel es)
  case 0
  then obtain k where k: "fuel = Suc k" by (cases fuel) auto
  obtain b w1 where io: "is_over G w = (b, w1)" by (cases "is_over G w")
  with "0.prems"(1) have "b" "w' = w1" "es = [Game_is_over True]"
    by (auto split: if_splits)
  with io k show ?case by (simp add: spy_sel)
next
  case (Suc n)
  then obtain k where k: "fuel = Suc k" "n < k" by (cases fuel) auto
  obtain b w1 where io: "is_over G w = (b, w1)" by (cases "is_over G w")
  with Suc.prems(1) obtain w2 es1 rest where nb: "\<not> b"
    and pr: "poll_round G Q w1 = Inr (w2, es1)"
    and su: "served_until_over n G Q w2 = Some (w', rest)"
    and es: "es = Game_is_over False # es1 @ rest"
    by (auto split: if_splits sum.splits option.splits)
  from pr have r: "respond_to_requests (spy_game G) (spy_queues Q) (w1, l @ [Game_is_over False]) =
      Inr (w2, (l @ [Game_is_over False]) @ es1)"
    by (simp add: respond_to_requests_poll_round)
  from Suc.IH [OF su k(2), of "(l @ [Game_is_over False]) @ es1"]
  have "moderate_until_over k (spy_game G) (spy_queues Q) (w2, (l @ [Game_is_over False]) @ es1) =
      Some (Inr (w', ((l @ [Game_is_over False]) @ es1) @ rest))" .
  with io nb r k(1) es show ?case by (simp add: spy_sel)
qed

lemma moderate_while_alive_served:
  "served_while_alive n G Q PR w = Some (w', es) \<Longrightarrow> n < fuel \<Longrightarrow>
     moderate_while_alive fuel (spy_game G) (spy_queues Q) (spy_processes PR) (w, l) =
       Some (Inr (w', l @ es))"
proof (induction n arbitrary: w l fuel es)
  case 0
  then obtain k where k: "fuel = Suc k" by (cases fuel) auto
  obtain a0 w1 where p0: "process_is_alive PR 0 w = (a0, w1)"
    by (cases "process_is_alive PR 0 w")
  obtain a1 w2 where p1: "process_is_alive PR 1 w1 = (a1, w2)"
    by (cases "process_is_alive PR 1 w1")
  from "0.prems"(1) p0 p1 have "\<not> a0" "\<not> a1" "w' = w2"
    "es = [Process_is_alive 0 False, Process_is_alive 1 False]"
    by (auto split: if_splits)
  with p0 p1 k show ?case by (simp add: spy_sel)
next
  case (Suc n)
  then obtain k where k: "fuel = Suc k" "n < k" by (cases fuel) auto
  obtain a0 w1 where p0: "process_is_alive PR 0 w = (a0, w1)"
    by (cases "process_is_alive PR 0 w")
  obtain a1 w2 where p1: "process_is_alive PR 1 w1 = (a1, w2)"
    by (cases "process_is_alive PR 1 w1")
  let ?l2 = "l @ [Process_is_alive 0 a0, Process_is_alive 1 a1]"
  from Suc.prems(1) p0 p1 obtain w3 es1 rest where al: "a0 \<or> a1"
    and pr: "poll_round G Q w2 = Inr (w3, es1)"
    and su: "served_while_alive n G Q PR w3 = Some (w', rest)"
    and es: "es = Process_is_alive 0 a0 # Process_is_alive 1 a1 # es1 @ rest"
    by (auto split: if_splits sum.splits option.splits)
  from pr have r: "respond_to_requests (spy_game G) (spy_queues Q) (w2, ?l2) =
      Inr (w3, ?l2 @ es1)"
    by (simp add: respond_to_requests_poll_round)
  from Suc.IH [OF su k(2), of "?l2 @ es1"]
  have "moderate_while_alive k (spy_game G) (spy_queues Q) (spy_processes PR) (w3, ?l2 @ es1) =
      Some (Inr (w', (?l2 @ es1) @ rest))" .
  with p0 p1 al r k(1) es show ?case by (simp add: spy_sel)
qed

lemma game_results_spy:
  "(let (winner_color, w8) = get_winner_color (spy_game G) (w, l);
        (win_reason, w9) = get_win_reason (spy_game G) w8;
        (game_history, w10) = get_game_history (spy_game G) w9
    in f winner_color win_reason game_history w10) =
   (case fst (game_results G w) of (wc, wr, h) \<Rightarrow>
      f wc wr h (snd (game_results G w),
        l @ [Game_get_winner_color, Game_get_win_reason, Game_get_game_history]))"
  by (simp add: game_results_def spy_sel split: prod.splits)

lemma game_call_no_round: "is_game_call e \<Longrightarrow> \<not> is_round e"
  by (cases e) (simp_all add: is_game_call_def is_round_def)

lemma rounds_game_calls: "list_all is_game_call calls \<Longrightarrow> rounds calls = 0"
  by (induction calls) (simp_all add: rounds_def game_call_no_round)

lemma rounds_append: "rounds (xs @ ys) = rounds xs + rounds ys"
  by (simp add: rounds_def)

lemma rounds_single:
  "rounds [Queue_empty c b] = (if c = WHITE then 1 else 0)"
  "rounds [Queue_get c rq] = 0"
  "rounds [Queue_put c r] = 0"
  "rounds [Game_is_over b] = 0"
  "rounds [Process_is_alive i b] = 0"
  by (simp_all add: rounds_def is_round_def)

lemma rounds_exchange:
  assumes "exchange c es"
  shows "rounds es = (if c = WHITE then 1 else 0)"
proof -
  from assms consider "es = [Queue_empty c True]"
    | rq calls r where "es = [Queue_empty c False] @ [Queue_get c rq] @ calls @ [Queue_put c r]"
        "list_all is_game_call calls"
    unfolding exchange_def by auto
  then show ?thesis
  proof cases
    case 1
    then show ?thesis by (simp only: rounds_single)
  next
    case 2
    then show ?thesis
      by (simp only: rounds_append rounds_single rounds_game_calls)
  qed
qed

lemma rounds_poll_round:
  assumes "poll_round G Q w = Inr (w2, es)"
  shows "rounds es = 1"
proof -
  from assms obtain w1 ew eb where sw: "served G Q WHITE w = Inr (w1, ew)"
    and sb: "served G Q BLACK w1 = Inr (w2, eb)" and es: "es = ew @ eb"
    by (auto simp add: poll_round_def split: sum.splits)
  from rounds_exchange [OF served_exchange [OF sw]] rounds_exchange [OF served_exchange [OF sb]] es
  show ?thesis by (simp add: rounds_append)
qed

lemma rounds_served_until_over:
  "served_until_over n G Q w = Some (w', es) \<Longrightarrow> rounds es = n"
proof (induction n arbitrary: w es)
  case 0
  then show ?case
    by (auto simp add: rounds_def is_round_def split: prod.splits if_splits)
next
  case (Suc n)
  obtain b w1 where io: "is_over G w = (b, w1)" by (cases "is_over G w")
  with Suc.prems obtain w2 es1 rest where pr: "poll_round G Q w1 = Inr (w2, es1)"
    and su: "served_until_over n G Q w2 = Some (w', rest)"
    and es: "es = Game_is_over False # es1 @ rest"
    by (auto split: if_splits sum.splits option.splits)
  have "rounds [Game_is_over False] = 0" by (simp only: rounds_single)
  with rounds_poll_round [OF pr] Suc.IH [OF su] es
    rounds_append [of "[Game_is_over False]" "es1 @ rest"] rounds_append [of es1 rest]
  show ?case by simp
qed

lemma rounds_served_while_alive:
  "served_while_alive n G Q PR w = Some (w', es) \<Longrightarrow> rounds es = n"
proof (induction n arbitrary: w es)
  case 0
  then show ?case
    by (auto simp add: rounds_def is_round_def split: prod.splits if_splits)
next
  case (Suc n)
  obtain a0 w1 where p0: "process_is_alive PR 0 w = (a0, w1)"
    by (cases "process_is_alive PR 0 w")
  obtain a1 w2 where p1: "process_is_alive PR 1 w1 = (a1, w2)"
    by (cases "process_is_alive PR 1 w1")
  from Suc.prems p0 p1 obtain w3 es1 rest where pr: "poll_round G Q w2 = Inr (w3, es1)"
    and su: "served_while_alive n G Q PR w3 = Some (w', rest)"
    and es: "es = [Process_is_alive 0 a0, Process_is_alive 1 a1] @ es1 @ rest"
    by (auto split: if_splits sum.splits option.splits)
  have "rounds [Process_is_alive 0 a0, Process_is_alive 1 a1] = 0"
    by (simp add: rounds_def is_round_def)
  with rounds_poll_round [OF pr] Suc.IH [OF su] es
    rounds_append [of "[Process_is_alive 0 a0, Process_is_alive 1 a1]" "es1 @ rest"]
    rounds_append [of es1 rest]
  show ?case by simp
qed

text \<open>
  C6. \<^verbatim>\<open>play_multiprocessing_local_game\<close> keeps calling \<^verbatim>\<open>_respond_to_requests\<close> until
  \<^verbatim>\<open>game.is_over()\<close> answers true, calls \<^verbatim>\<open>game.end()\<close>, and then keeps calling
  \<^verbatim>\<open>_respond_to_requests\<close> as long as one of the two player processes is alive. When the game
  is over after \<open>n\<close> rounds of service and both processes have exited after \<open>m\<close> further rounds,
  the call returns (the bound on its loops being larger than \<open>n\<close> and \<open>m\<close>): it has made
  exactly \<open>n\<close> calls of \<^verbatim>\<open>_respond_to_requests\<close> before \<^verbatim>\<open>game.end()\<close> and \<open>m\<close> after it, each
  one answering the pending request of each colour as \<open>answer\<close> says, so that a request a peer
  sends after the end of the game is answered as long as a process lives; then it reads the
  winner, the reason and the history and returns them.
\<close>

theorem mediator_serves_until_over_and_exited:
  assumes "served_until_over n G Q
             (start G (process_start PR 1 (process_start PR 0
                (set_player_names G (black_name, white_name)
                   (store_players G white_name black_name w))))) = Some (w6, m1)"
    and "served_while_alive m G Q PR (game_end G w6) = Some (w7, m2)"
    and "n < fuel" and "m < fuel"
  shows "play_multiprocessing_local_game fuel white_name black_name
             (spy_game G) (spy_queues Q) (spy_processes PR) (w, l) =
           Some (Inr (fst (game_results G w7), snd (game_results G w7),
             l @ [Game_store_players white_name black_name,
                  Game_set_player_names (black_name, white_name),
                  Process_start 0, Process_start 1, Game_start] @
                 m1 @ [Game_end] @ m2 @
                 [Game_get_winner_color, Game_get_win_reason, Game_get_game_history]))
         \<and> rounds m1 = n \<and> rounds m2 = m"
proof -
  let ?l0 = "l @ [Game_store_players white_name black_name,
            Game_set_player_names (black_name, white_name),
            Process_start 0, Process_start 1, Game_start]"
  let ?w5 = "start G (process_start PR 1 (process_start PR 0
               (set_player_names G (black_name, white_name)
                  (store_players G white_name black_name w))))"
  from moderate_until_over_served [OF assms(1) assms(3), of ?l0]
  have l1: "moderate_until_over fuel (spy_game G) (spy_queues Q) (?w5, ?l0) =
      Some (Inr (w6, ?l0 @ m1))" .
  from moderate_while_alive_served [OF assms(2) assms(4), of "(?l0 @ m1) @ [Game_end]"]
  have l2: "moderate_while_alive fuel (spy_game G) (spy_queues Q) (spy_processes PR)
      (game_end G w6, (?l0 @ m1) @ [Game_end]) = Some (Inr (w7, ((?l0 @ m1) @ [Game_end]) @ m2))" .
  have step: "play_multiprocessing_local_game fuel white_name black_name
             (spy_game G) (spy_queues Q) (spy_processes PR) (w, l) =
      (case moderate_until_over fuel (spy_game G) (spy_queues Q) (?w5, ?l0) of
         None \<Rightarrow> None
       | Some (Inl e) \<Rightarrow> Some (Inl e)
       | Some (Inr (w6, l6)) \<Rightarrow>
           (case moderate_while_alive fuel (spy_game G) (spy_queues Q) (spy_processes PR)
                   (game_end G w6, l6 @ [Game_end]) of
              None \<Rightarrow> None
            | Some (Inl e) \<Rightarrow> Some (Inl e)
            | Some (Inr (w7, l7)) \<Rightarrow>
                Some (Inr (fst (game_results G w7), snd (game_results G w7),
                  l7 @ [Game_get_winner_color, Game_get_win_reason, Game_get_game_history]))))"
    by (simp add: play_multiprocessing_local_game_def spy_sel game_results_def
          split: option.splits sum.splits prod.splits)
  have "play_multiprocessing_local_game fuel white_name black_name
             (spy_game G) (spy_queues Q) (spy_processes PR) (w, l) =
           Some (Inr (fst (game_results G w7), snd (game_results G w7),
             (((?l0 @ m1) @ [Game_end]) @ m2) @
                 [Game_get_winner_color, Game_get_win_reason, Game_get_game_history]))"
    by (simp only: step l1 l2 option.case sum.case prod.case)
  with rounds_served_until_over [OF assms(1)] rounds_served_while_alive [OF assms(2)]
  show ?thesis by simp
qed

theorem mediator_serves_until_over_and_exited_witness:
  "served_until_over 1 example_game example_queues
     (start example_game (process_start example_processes 1
          (process_start example_processes 0
             (set_player_names example_game (''BlackBot'', ''WhiteBot'')
                (store_players example_game ''WhiteBot'' ''BlackBot'' example_mediation))))) =
     Some ((example_start\<lparr>ex_half_moves := 2, ex_names := (''BlackBot'', ''WhiteBot''),
          ex_white_requests := [(''winner_color'', None), (''win_reason'', None)],
          ex_black_requests := [(''game_history'', None)],
          ex_white_responses := [R_end_turn], ex_black_responses := [R_end_turn],
          ex_alive_checks := 4\<rparr>),
       [Game_is_over False,
        Queue_empty WHITE False, Queue_get WHITE (''end_turn'', None), Game_end_turn,
        Queue_put WHITE R_end_turn,
        Queue_empty BLACK False, Queue_get BLACK (''end_turn'', None), Game_end_turn,
        Queue_put BLACK R_end_turn,
        Game_is_over True])
   \<and> served_while_alive 2 example_game example_queues example_processes
       (game_end example_game
          (example_start\<lparr>ex_half_moves := 2, ex_names := (''BlackBot'', ''WhiteBot''),
          ex_white_requests := [(''winner_color'', None), (''win_reason'', None)],
          ex_black_requests := [(''game_history'', None)],
          ex_white_responses := [R_end_turn], ex_black_responses := [R_end_turn],
          ex_alive_checks := 4\<rparr>)) =
     Some ((example_start\<lparr>ex_half_moves := 2, ex_names := (''BlackBot'', ''WhiteBot''),
          ex_white_responses :=
            [R_end_turn, R_winner_color (Some WHITE), R_win_reason (Some TIMEOUT)],
          ex_black_responses := [R_end_turn, R_game_history example_history]\<rparr>),
       [Process_is_alive 0 True, Process_is_alive 1 True,
        Queue_empty WHITE False, Queue_get WHITE (''winner_color'', None),
        Game_get_winner_color, Queue_put WHITE (R_winner_color (Some WHITE)),
        Queue_empty BLACK False, Queue_get BLACK (''game_history'', None),
        Game_get_game_history, Queue_put BLACK (R_game_history example_history),
        Process_is_alive 0 True, Process_is_alive 1 True,
        Queue_empty WHITE False, Queue_get WHITE (''win_reason'', None),
        Game_get_win_reason, Queue_put WHITE (R_win_reason (Some TIMEOUT)),
        Queue_empty BLACK True,
        Process_is_alive 0 False, Process_is_alive 1 False])
   \<and> (1::nat) < 3 \<and> (2::nat) < 3
   \<and> play_multiprocessing_local_game 3 ''WhiteBot'' ''BlackBot''
       (spy_game example_game) (spy_queues example_queues) (spy_processes example_processes)
       (example_mediation, []) =
     Some (Inr ((Some WHITE, Some TIMEOUT, example_history),
       (example_start\<lparr>ex_half_moves := 2, ex_names := (''BlackBot'', ''WhiteBot''),
          ex_white_responses :=
            [R_end_turn, R_winner_color (Some WHITE), R_win_reason (Some TIMEOUT)],
          ex_black_responses := [R_end_turn, R_game_history example_history]\<rparr>),
       [Game_store_players ''WhiteBot'' ''BlackBot'',
        Game_set_player_names (''BlackBot'', ''WhiteBot''),
        Process_start 0, Process_start 1, Game_start,
        Game_is_over False,
        Queue_empty WHITE False, Queue_get WHITE (''end_turn'', None), Game_end_turn,
        Queue_put WHITE R_end_turn,
        Queue_empty BLACK False, Queue_get BLACK (''end_turn'', None), Game_end_turn,
        Queue_put BLACK R_end_turn,
        Game_is_over True,
        Game_end,
        Process_is_alive 0 True, Process_is_alive 1 True,
        Queue_empty WHITE False, Queue_get WHITE (''winner_color'', None),
        Game_get_winner_color, Queue_put WHITE (R_winner_color (Some WHITE)),
        Queue_empty BLACK False, Queue_get BLACK (''game_history'', None),
        Game_get_game_history, Queue_put BLACK (R_game_history example_history),
        Process_is_alive 0 True, Process_is_alive 1 True,
        Queue_empty WHITE False, Queue_get WHITE (''win_reason'', None),
        Game_get_win_reason, Queue_put WHITE (R_win_reason (Some TIMEOUT)),
        Queue_empty BLACK True,
        Process_is_alive 0 False, Process_is_alive 1 False,
        Game_get_winner_color, Game_get_win_reason, Game_get_game_history]))
   \<and> rounds
       [Game_is_over False,
        Queue_empty WHITE False, Queue_get WHITE (''end_turn'', None), Game_end_turn,
        Queue_put WHITE R_end_turn,
        Queue_empty BLACK False, Queue_get BLACK (''end_turn'', None), Game_end_turn,
        Queue_put BLACK R_end_turn,
        Game_is_over True] = 1
   \<and> rounds
       [Process_is_alive 0 True, Process_is_alive 1 True,
        Queue_empty WHITE False, Queue_get WHITE (''winner_color'', None),
        Game_get_winner_color, Queue_put WHITE (R_winner_color (Some WHITE)),
        Queue_empty BLACK False, Queue_get BLACK (''game_history'', None),
        Game_get_game_history, Queue_put BLACK (R_game_history example_history),
        Process_is_alive 0 True, Process_is_alive 1 True,
        Queue_empty WHITE False, Queue_get WHITE (''win_reason'', None),
        Game_get_win_reason, Queue_put WHITE (R_win_reason (Some TIMEOUT)),
        Queue_empty BLACK True,
        Process_is_alive 0 False, Process_is_alive 1 False] = 2"
proof -
  let ?w6 = "(example_start\<lparr>ex_half_moves := 2, ex_names := (''BlackBot'', ''WhiteBot''),
          ex_white_requests := [(''winner_color'', None), (''win_reason'', None)],
          ex_black_requests := [(''game_history'', None)],
          ex_white_responses := [R_end_turn], ex_black_responses := [R_end_turn],
          ex_alive_checks := 4\<rparr>)"
  let ?w7 = "(example_start\<lparr>ex_half_moves := 2, ex_names := (''BlackBot'', ''WhiteBot''),
          ex_white_responses :=
            [R_end_turn, R_winner_color (Some WHITE), R_win_reason (Some TIMEOUT)],
          ex_black_responses := [R_end_turn, R_game_history example_history]\<rparr>)"
  let ?m1 = "[Game_is_over False,
        Queue_empty WHITE False, Queue_get WHITE (''end_turn'', None), Game_end_turn,
        Queue_put WHITE R_end_turn,
        Queue_empty BLACK False, Queue_get BLACK (''end_turn'', None), Game_end_turn,
        Queue_put BLACK R_end_turn,
        Game_is_over True]"
  let ?m2 = "[Process_is_alive 0 True, Process_is_alive 1 True,
        Queue_empty WHITE False, Queue_get WHITE (''winner_color'', None),
        Game_get_winner_color, Queue_put WHITE (R_winner_color (Some WHITE)),
        Queue_empty BLACK False, Queue_get BLACK (''game_history'', None),
        Game_get_game_history, Queue_put BLACK (R_game_history example_history),
        Process_is_alive 0 True, Process_is_alive 1 True,
        Queue_empty WHITE False, Queue_get WHITE (''win_reason'', None),
        Game_get_win_reason, Queue_put WHITE (R_win_reason (Some TIMEOUT)),
        Queue_empty BLACK True,
        Process_is_alive 0 False, Process_is_alive 1 False]"
  have h1: "served_until_over 1 example_game example_queues
     (start example_game (process_start example_processes 1
          (process_start example_processes 0
             (set_player_names example_game (''BlackBot'', ''WhiteBot'')
                (store_players example_game ''WhiteBot'' ''BlackBot'' example_mediation))))) = Some (?w6, ?m1)"
    by code_simp
  have h2: "served_while_alive 2 example_game example_queues example_processes
       (game_end example_game ?w6) = Some (?w7, ?m2)"
    by code_simp
  have h3: "(1::nat) < 3" by simp
  have h4: "(2::nat) < 3" by simp
  have res: "game_results example_game ?w7 = ((Some WHITE, Some TIMEOUT, example_history), ?w7)"
    by (simp add: game_results_def example_defs)
  note c = mediator_serves_until_over_and_exited [OF h1 h2 h3 h4, of "[]",
      unfolded res fst_conv snd_conv]
  from c have run: "play_multiprocessing_local_game 3 ''WhiteBot'' ''BlackBot''
       (spy_game example_game) (spy_queues example_queues) (spy_processes example_processes)
       (example_mediation, []) =
     Some (Inr ((Some WHITE, Some TIMEOUT, example_history), ?w7,
       [Game_store_players ''WhiteBot'' ''BlackBot'',
        Game_set_player_names (''BlackBot'', ''WhiteBot''),
        Process_start 0, Process_start 1, Game_start,
        Game_is_over False,
        Queue_empty WHITE False, Queue_get WHITE (''end_turn'', None), Game_end_turn,
        Queue_put WHITE R_end_turn,
        Queue_empty BLACK False, Queue_get BLACK (''end_turn'', None), Game_end_turn,
        Queue_put BLACK R_end_turn,
        Game_is_over True,
        Game_end,
        Process_is_alive 0 True, Process_is_alive 1 True,
        Queue_empty WHITE False, Queue_get WHITE (''winner_color'', None),
        Game_get_winner_color, Queue_put WHITE (R_winner_color (Some WHITE)),
        Queue_empty BLACK False, Queue_get BLACK (''game_history'', None),
        Game_get_game_history, Queue_put BLACK (R_game_history example_history),
        Process_is_alive 0 True, Process_is_alive 1 True,
        Queue_empty WHITE False, Queue_get WHITE (''win_reason'', None),
        Game_get_win_reason, Queue_put WHITE (R_win_reason (Some TIMEOUT)),
        Queue_empty BLACK True,
        Process_is_alive 0 False, Process_is_alive 1 False,
        Game_get_winner_color, Game_get_win_reason, Game_get_game_history]))"
    by simp
  from c have r1: "rounds ?m1 = 1" by (rule conjunct1 [OF conjunct2])
  from c have r2: "rounds ?m2 = 2" by (rule conjunct2 [OF conjunct2])
  show ?thesis
    apply (rule conjI [OF h1])
    apply (rule conjI [OF h2])
    apply (rule conjI [OF h3])
    apply (rule conjI [OF h4])
    apply (rule conjI [OF run])
    apply (rule conjI [OF r1])
    apply (rule r2)
    done
qed

section \<open>The whole-game drivers\<close>

lemma local_game_loop_step:
  "local_game_loop (Suc n) (spy_game G)
       [spy_player ''black_player'' PB, spy_player ''white_player'' PW] (w, l) =
     (if fst (is_over G w)
      then Some (snd (is_over G w), l @ [Game_is_over True])
      else local_game_loop n (spy_game G)
             [spy_player ''black_player'' PB, spy_player ''white_player'' PW]
             (play_turn (spy_game G)
                (spy_player (fst (local_agent G PW PB (snd (is_over G w))))
                   (snd (local_agent G PW PB (snd (is_over G w)))))
                True (snd (is_over G w), l @ [Game_is_over False])))"
  by (cases "is_over G w") (simp add: spy_sel local_agent_def)

lemma remote_game_loop_step:
  "remote_game_loop (Suc n) (spy_game G) (spy_player p P) (w, l) =
     (if fst (is_over G w)
      then Some (snd (is_over G w), l @ [Game_is_over True])
      else remote_game_loop n (spy_game G) (spy_player p P)
             (play_turn (spy_game G) (spy_player p P) False
                (snd (is_over G w), l @ [Game_is_over False])))"
  by (cases "is_over G w") (simp add: spy_sel)

lemma local_game_loop_played:
  "played_until_over n G (local_agent G PW PB) True w = Some (w', es) \<Longrightarrow> n < fuel \<Longrightarrow>
     local_game_loop fuel (spy_game G)
       [spy_player ''black_player'' PB, spy_player ''white_player'' PW] (w, l) =
     Some (w', l @ es)"
proof (induction n arbitrary: w l fuel es)
  case 0
  then obtain k where k: "fuel = Suc k" by (cases fuel) auto
  obtain b w1 where io: "is_over G w = (b, w1)" by (cases "is_over G w")
  with "0.prems"(1) have "b" "w' = w1" "es = [Game_is_over True]"
    by (auto split: if_splits)
  with io show ?case unfolding k local_game_loop_step by simp
next
  case (Suc n)
  then obtain k where k: "fuel = Suc k" "n < k" by (cases fuel) auto
  obtain b w1 where io: "is_over G w = (b, w1)" by (cases "is_over G w")
  obtain p P where ag: "local_agent G PW PB w1 = (p, P)"
    by (cases "local_agent G PW PB w1")
  obtain w2 es1 where pt: "play_turn (spy_game G) (spy_player p P) True (w1, []) = (w2, es1)"
    by (cases "play_turn (spy_game G) (spy_player p P) True (w1, [])")
  from Suc.prems(1) io ag pt obtain rest where nb: "\<not> b"
    and pl: "played_until_over n G (local_agent G PW PB) True w2 = Some (w', rest)"
    and es: "es = Game_is_over False # es1 @ rest"
    by (auto split: if_splits option.splits)
  have pt': "play_turn (spy_game G) (spy_player p P) True (w1, l @ [Game_is_over False]) =
        (w2, (l @ [Game_is_over False]) @ es1)"
    using pt play_turn_log_from [of G p P True w1 "l @ [Game_is_over False]"] by simp
  from Suc.IH [OF pl k(2), of "(l @ [Game_is_over False]) @ es1"]
  have "local_game_loop k (spy_game G)
       [spy_player ''black_player'' PB, spy_player ''white_player'' PW]
       (w2, (l @ [Game_is_over False]) @ es1) =
     Some (w', ((l @ [Game_is_over False]) @ es1) @ rest)" .
  with nb es show ?case
    unfolding k(1) local_game_loop_step io fst_conv snd_conv ag pt' by simp
qed

lemma remote_game_loop_played:
  "played_until_over n G (\<lambda>w. (p, P)) False w = Some (w', es) \<Longrightarrow> n < fuel \<Longrightarrow>
     remote_game_loop fuel (spy_game G) (spy_player p P) (w, l) = Some (w', l @ es)"
proof (induction n arbitrary: w l fuel es)
  case 0
  then obtain k where k: "fuel = Suc k" by (cases fuel) auto
  obtain b w1 where io: "is_over G w = (b, w1)" by (cases "is_over G w")
  with "0.prems"(1) have "b" "w' = w1" "es = [Game_is_over True]"
    by (auto split: if_splits)
  with io show ?case unfolding k remote_game_loop_step by simp
next
  case (Suc n)
  then obtain k where k: "fuel = Suc k" "n < k" by (cases fuel) auto
  obtain b w1 where io: "is_over G w = (b, w1)" by (cases "is_over G w")
  obtain w2 es1 where pt: "play_turn (spy_game G) (spy_player p P) False (w1, []) = (w2, es1)"
    by (cases "play_turn (spy_game G) (spy_player p P) False (w1, [])")
  from Suc.prems(1) io pt obtain rest where nb: "\<not> b"
    and pl: "played_until_over n G (\<lambda>w. (p, P)) False w2 = Some (w', rest)"
    and es: "es = Game_is_over False # es1 @ rest"
    by (auto split: if_splits option.splits)
  have pt': "play_turn (spy_game G) (spy_player p P) False (w1, l @ [Game_is_over False]) =
        (w2, (l @ [Game_is_over False]) @ es1)"
    using pt play_turn_log_from [of G p P False w1 "l @ [Game_is_over False]"] by simp
  from Suc.IH [OF pl k(2), of "(l @ [Game_is_over False]) @ es1"]
  have "remote_game_loop k (spy_game G) (spy_player p P)
       (w2, (l @ [Game_is_over False]) @ es1) =
     Some (w', ((l @ [Game_is_over False]) @ es1) @ rest)" .
  with nb es show ?case
    unfolding k(1) remote_game_loop_step io fst_conv snd_conv pt' by simp
qed

lemma play_local_game_unfold:
  "play_local_game fuel (spy_player ''white_player'' PW) (spy_player ''black_player'' PB)
      (spy_game G) (w, l) =
   (let w1 = store_players G (class_name PW) (class_name PB) w;
        w2 = handle_game_start PW WHITE (board G w1) (class_name PB) w1;
        w3 = handle_game_start PB BLACK (board G w2) (class_name PW) w2
    in case local_game_loop fuel (spy_game G)
              [spy_player ''black_player'' PB, spy_player ''white_player'' PW]
              (start G w3,
               l @ [Game_store_players (class_name PW) (class_name PB),
                Player_handle_game_start ''white_player'' WHITE (board G w1) (class_name PB),
                Player_handle_game_start ''black_player'' BLACK (board G w2) (class_name PW),
                Game_start]) of
         None \<Rightarrow> None
       | Some (w5, l5) \<Rightarrow>
           (let ((wc, wr, h), w9) = game_results G (game_end G w5)
            in Some ((wc, wr, h),
                 handle_game_end PB wc wr h (handle_game_end PW wc wr h w9),
                 l5 @ [Game_end, Game_get_winner_color, Game_get_win_reason,
                       Game_get_game_history,
                       Player_handle_game_end ''white_player'' wc wr h,
                       Player_handle_game_end ''black_player'' wc wr h])))"
  by (simp add: play_local_game_def game_results_def spy_sel Let_def
        split: option.splits prod.splits)

lemma play_remote_game_unfold:
  "play_remote_game fuel (spy_game G) (spy_player p P) (w, l) =
   (let (c, w1) = get_player_color G w;
        (b, w2) = get_starting_board G w1;
        (n, w3) = get_opponent_name G w2
    in case remote_game_loop fuel (spy_game G) (spy_player p P)
              (start G (handle_game_start P c b n w3),
               l @ [Game_get_player_color, Game_get_starting_board, Game_get_opponent_name,
                Player_handle_game_start p c b n, Game_start]) of
         None \<Rightarrow> None
       | Some (w6, l6) \<Rightarrow>
           (let ((wc, wr, h), w9) = game_results G w6
            in Some ((wc, wr, h), handle_game_end P wc wr h w9,
                 l6 @ [Game_get_winner_color, Game_get_win_reason, Game_get_game_history,
                       Player_handle_game_end p wc wr h])))"
  by (simp add: play_remote_game_def game_results_def spy_sel Let_def
        split: option.splits prod.splits)

lemma play_in_multiprocessing_local_game_unfold:
  "play_in_multiprocessing_local_game fuel (spy_game G) (spy_player p P) (w, l) =
   (let (c, w1) = get_player_color G w;
        (b, w2) = get_starting_board G w1;
        (n, w3) = get_opponent_name G w2
    in case remote_game_loop fuel (spy_game G) (spy_player p P)
              (start G (handle_game_start P c b n w3),
               l @ [Game_get_player_color, Game_get_starting_board, Game_get_opponent_name,
                Player_handle_game_start p c b n, Game_start]) of
         None \<Rightarrow> None
       | Some (w6, l6) \<Rightarrow>
           (let ((wc, wr, h), w9) = game_results G w6
            in Some (handle_game_end P wc wr h w9,
                 l6 @ [Game_get_winner_color, Game_get_win_reason, Game_get_game_history,
                       Player_handle_game_end p wc wr h])))"
  by (simp add: play_in_multiprocessing_local_game_def game_results_def spy_sel Let_def
        split: option.splits prod.splits)

lemma play_local_game_played:
  assumes "played_until_over n G (local_agent G PW PB) True
             (start G (handle_game_start PB BLACK
                (board G (handle_game_start PW WHITE
                   (board G (store_players G (class_name PW) (class_name PB) w)) (class_name PB)
                   (store_players G (class_name PW) (class_name PB) w)))
                (class_name PW)
                (handle_game_start PW WHITE
                   (board G (store_players G (class_name PW) (class_name PB) w)) (class_name PB)
                   (store_players G (class_name PW) (class_name PB) w)))) = Some (wo, mid)"
    and "n < fuel"
    and "game_results G (game_end G wo) = ((wc, wr, h), w9)"
  shows "play_local_game fuel (spy_player ''white_player'' PW)
             (spy_player ''black_player'' PB) (spy_game G) (w, l) =
           Some ((wc, wr, h),
             handle_game_end PB wc wr h (handle_game_end PW wc wr h w9),
             l @ [Game_store_players (class_name PW) (class_name PB),
                  Player_handle_game_start ''white_player'' WHITE
                    (board G (store_players G (class_name PW) (class_name PB) w)) (class_name PB),
                  Player_handle_game_start ''black_player'' BLACK
                    (board G (handle_game_start PW WHITE
                       (board G (store_players G (class_name PW) (class_name PB) w))
                       (class_name PB)
                       (store_players G (class_name PW) (class_name PB) w)))
                    (class_name PW),
                  Game_start] @
                 mid @
                 [Game_end, Game_get_winner_color, Game_get_win_reason, Game_get_game_history,
                  Player_handle_game_end ''white_player'' wc wr h,
                  Player_handle_game_end ''black_player'' wc wr h])"
  unfolding play_local_game_unfold Let_def
    local_game_loop_played [OF assms(1) assms(2)] option.case prod.case assms(3)
  by simp

lemma play_remote_game_played:
  assumes "get_player_color G w = (c, w1)"
    and "get_starting_board G w1 = (b, w2)"
    and "get_opponent_name G w2 = (nm, w3)"
    and "played_until_over k G (\<lambda>x. (p, P)) False
           (start G (handle_game_start P c b nm w3)) = Some (wo, mid)"
    and "k < fuel"
    and "game_results G wo = ((wc, wr, h), w9)"
  shows "play_remote_game fuel (spy_game G) (spy_player p P) (w, l) =
           Some ((wc, wr, h), handle_game_end P wc wr h w9,
             l @ [Game_get_player_color, Game_get_starting_board, Game_get_opponent_name,
                  Player_handle_game_start p c b nm, Game_start] @
                 mid @
                 [Game_get_winner_color, Game_get_win_reason, Game_get_game_history,
                  Player_handle_game_end p wc wr h])"
  unfolding play_remote_game_unfold assms(1-3) Let_def prod.case
    remote_game_loop_played [OF assms(4) assms(5)] option.case assms(6)
  by simp

lemma play_in_multiprocessing_local_game_played:
  assumes "get_player_color G w = (c, w1)"
    and "get_starting_board G w1 = (b, w2)"
    and "get_opponent_name G w2 = (nm, w3)"
    and "played_until_over k G (\<lambda>x. (p, P)) False
           (start G (handle_game_start P c b nm w3)) = Some (wo, mid)"
    and "k < fuel"
    and "game_results G wo = ((wc, wr, h), w9)"
  shows "play_in_multiprocessing_local_game fuel (spy_game G) (spy_player p P) (w, l) =
           Some (handle_game_end P wc wr h w9,
             l @ [Game_get_player_color, Game_get_starting_board, Game_get_opponent_name,
                  Player_handle_game_start p c b nm, Game_start] @
                 mid @
                 [Game_get_winner_color, Game_get_win_reason, Game_get_game_history,
                  Player_handle_game_end p wc wr h])"
  unfolding play_in_multiprocessing_local_game_unfold assms(1-3) Let_def prod.case
    remote_game_loop_played [OF assms(4) assms(5)] option.case assms(6)
  by simp

lemma played_until_over_ends:
  "played_until_over n G agent etl w = Some (wo, es) \<Longrightarrow>
     \<exists>x. fst (is_over G x) \<and> wo = snd (is_over G x)"
proof (induction n arbitrary: w es)
  case 0
  then show ?case
    by (cases "is_over G w") (auto split: if_splits intro: exI [of _ w])
next
  case (Suc n)
  obtain b w1 where io: "is_over G w = (b, w1)" by (cases "is_over G w")
  obtain p P where ag: "agent w1 = (p, P)" by (cases "agent w1")
  obtain w2 es1 where pt: "play_turn (spy_game G) (spy_player p P) etl (w1, []) = (w2, es1)"
    by (cases "play_turn (spy_game G) (spy_player p P) etl (w1, [])")
  from Suc.prems io ag pt obtain rest
    where "played_until_over n G agent etl w2 = Some (wo, rest)"
    by (auto split: if_splits option.splits)
  then show ?case by (rule Suc.IH)
qed

lemma peer_delivers:
  assumes final: "\<forall>x. fst (is_over G x) \<longrightarrow> fst (game_results G (snd (is_over G x))) = (wc, wr, h)"
    and g: "get_player_color G w = (c, w1)" "get_starting_board G w1 = (b, w2)"
      "get_opponent_name G w2 = (nm, w3)"
    and pl: "played_until_over k G (\<lambda>x. (p, P)) False
           (start G (handle_game_start P c b nm w3)) = Some (wo, mid)"
    and k: "k < fuel"
  shows "\<exists>w' tr. play_in_multiprocessing_local_game fuel (spy_game G) (spy_player p P) (w, l) =
           Some (w', tr @ [Player_handle_game_end p wc wr h])"
proof -
  from played_until_over_ends [OF pl] final have "fst (game_results G wo) = (wc, wr, h)"
    by blast
  then obtain w9 where r: "game_results G wo = ((wc, wr, h), w9)"
    by (cases "game_results G wo") auto
  let ?tr = "l @ [Game_get_player_color, Game_get_starting_board, Game_get_opponent_name,
                  Player_handle_game_start p c b nm, Game_start] @
                 mid @
                 [Game_get_winner_color, Game_get_win_reason, Game_get_game_history]"
  have "play_in_multiprocessing_local_game fuel (spy_game G) (spy_player p P) (w, l) =
      Some (handle_game_end P wc wr h w9, ?tr @ [Player_handle_game_end p wc wr h])"
    unfolding play_in_multiprocessing_local_game_played [OF g pl k r] by simp
  then show ?thesis by (intro exI)
qed

text \<open>
  C9. The whole-game drivers run \<^verbatim>\<open>while not game.is_over(): play_turn(...)\<close>, after
  \<^verbatim>\<open>handle_game_start\<close> and before \<^verbatim>\<open>handle_game_end\<close>. When the game is over after \<open>n\<close>
  turns, each driver returns (the bound on its loop being larger than \<open>n\<close>), and its calls
  are these. \<^verbatim>\<open>play_local_game\<close> starts both players (White, then Black), lets the player of
  colour \<^verbatim>\<open>game.turn\<close> play each turn with \<^verbatim>\<open>end_turn_last=True\<close>, calls \<^verbatim>\<open>game.end()\<close>, reads
  the winner, the reason and the history of the game, delivers this triple to both players
  and returns it. \<^verbatim>\<open>play_remote_game\<close> and each player process of the multiprocessing
  topology (\<^verbatim>\<open>_play_in_multiprocessing_local_game\<close>) make the same calls as each other: they
  start their one player, let it play every turn with \<^verbatim>\<open>end_turn_last=False\<close>, read the
  winner, the reason and the history from their game object and deliver this triple to the
  player.

  The two player processes run on two game objects. When both report the results of one
  finished game (the same winner, reason and history from the moment \<^verbatim>\<open>is_over()\<close> answers
  true), the two \<^verbatim>\<open>handle_game_end\<close> calls carry the same triple. In the multiprocessing
  topology a game object asks the mediator, whose entries for \<^verbatim>\<open>winner_color\<close>,
  \<^verbatim>\<open>win_reason\<close> and \<^verbatim>\<open>game_history\<close> answer either colour, on its turn or not, with what
  the one game of the mediator reports.
\<close>

theorem whole_game_drivers:
  "(let w1 = store_players G (class_name PW) (class_name PB) w;
        w2 = handle_game_start PW WHITE (board G w1) (class_name PB) w1;
        w3 = handle_game_start PB BLACK (board G w2) (class_name PW) w2
    in played_until_over n G (local_agent G PW PB) True (start G w3) = Some (wo, mid)
       \<and> n < fuel \<longrightarrow>
       (let ((wc, wr, h), w9) = game_results G (game_end G wo)
        in play_local_game fuel (spy_player ''white_player'' PW)
             (spy_player ''black_player'' PB) (spy_game G) (w, l) =
           Some ((wc, wr, h),
             handle_game_end PB wc wr h (handle_game_end PW wc wr h w9),
             l @ [Game_store_players (class_name PW) (class_name PB),
                  Player_handle_game_start ''white_player'' WHITE (board G w1) (class_name PB),
                  Player_handle_game_start ''black_player'' BLACK (board G w2) (class_name PW),
                  Game_start] @
                 mid @
                 [Game_end, Game_get_winner_color, Game_get_win_reason, Game_get_game_history,
                  Player_handle_game_end ''white_player'' wc wr h,
                  Player_handle_game_end ''black_player'' wc wr h])))
   \<and> (let (c, w1) = get_player_color G w;
          (b, w2) = get_starting_board G w1;
          (nm, w3) = get_opponent_name G w2
      in played_until_over k G (\<lambda>x. (p, P)) False (start G (handle_game_start P c b nm w3)) =
           Some (wo', mid')
         \<and> k < fuel \<longrightarrow>
         (let ((wc, wr, h), w9) = game_results G wo';
              tr = l @ [Game_get_player_color, Game_get_starting_board, Game_get_opponent_name,
                        Player_handle_game_start p c b nm, Game_start] @
                       mid' @
                       [Game_get_winner_color, Game_get_win_reason, Game_get_game_history,
                        Player_handle_game_end p wc wr h]
          in play_remote_game fuel (spy_game G) (spy_player p P) (w, l) =
               Some ((wc, wr, h), handle_game_end P wc wr h w9, tr)
             \<and> play_in_multiprocessing_local_game fuel (spy_game G) (spy_player p P) (w, l) =
               Some (handle_game_end P wc wr h w9, tr)))
   \<and> (let (cw, w1) = get_player_color GW w;
          (bw, w2) = get_starting_board GW w1;
          (nw, w3) = get_opponent_name GW w2;
          (cb, v1) = get_player_color GB v;
          (bb, v2) = get_starting_board GB v1;
          (nb, v3) = get_opponent_name GB v2
      in (\<forall>x. fst (is_over GW x) \<longrightarrow>
              fst (game_results GW (snd (is_over GW x))) = (winner, reason, history))
         \<and> (\<forall>x. fst (is_over GB x) \<longrightarrow>
              fst (game_results GB (snd (is_over GB x))) = (winner, reason, history))
         \<and> played_until_over i GW (\<lambda>x. (pw, PW)) False
               (start GW (handle_game_start PW cw bw nw w3)) = Some (ww, midw)
         \<and> played_until_over j GB (\<lambda>x. (pb, PB)) False
               (start GB (handle_game_start PB cb bb nb v3)) = Some (wb, midb)
         \<and> i < fuel \<and> j < fuel \<longrightarrow>
         (\<exists>w' tr. play_in_multiprocessing_local_game fuel (spy_game GW) (spy_player pw PW)
                    (w, l) =
                  Some (w', tr @ [Player_handle_game_end pw winner reason history]))
         \<and> (\<exists>v' tr. play_in_multiprocessing_local_game fuel (spy_game GB) (spy_player pb PB)
                    (v, l) =
                  Some (v', tr @ [Player_handle_game_end pb winner reason history])))
   \<and> run_response G Q color rq own ''winner_color'' w =
       Inr (to_player_put Q color (R_winner_color (fst (get_winner_color G w)))
              (snd (get_winner_color G w)))
   \<and> run_response G Q color rq own ''win_reason'' w =
       Inr (to_player_put Q color (R_win_reason (fst (get_win_reason G w)))
              (snd (get_win_reason G w)))
   \<and> run_response G Q color rq own ''game_history'' w =
       Inr (to_player_put Q color (R_game_history (fst (get_game_history G w)))
              (snd (get_game_history G w)))"
proof (intro conjI)
  show "let w1 = store_players G (class_name PW) (class_name PB) w;
        w2 = handle_game_start PW WHITE (board G w1) (class_name PB) w1;
        w3 = handle_game_start PB BLACK (board G w2) (class_name PW) w2
    in played_until_over n G (local_agent G PW PB) True (start G w3) = Some (wo, mid)
       \<and> n < fuel \<longrightarrow>
       (let ((wc, wr, h), w9) = game_results G (game_end G wo)
        in play_local_game fuel (spy_player ''white_player'' PW)
             (spy_player ''black_player'' PB) (spy_game G) (w, l) =
           Some ((wc, wr, h),
             handle_game_end PB wc wr h (handle_game_end PW wc wr h w9),
             l @ [Game_store_players (class_name PW) (class_name PB),
                  Player_handle_game_start ''white_player'' WHITE (board G w1) (class_name PB),
                  Player_handle_game_start ''black_player'' BLACK (board G w2) (class_name PW),
                  Game_start] @
                 mid @
                 [Game_end, Game_get_winner_color, Game_get_win_reason, Game_get_game_history,
                  Player_handle_game_end ''white_player'' wc wr h,
                  Player_handle_game_end ''black_player'' wc wr h]))"
  proof -
    let ?w1 = "store_players G (class_name PW) (class_name PB) w"
    let ?w2 = "handle_game_start PW WHITE (board G ?w1) (class_name PB) ?w1"
    let ?w3 = "handle_game_start PB BLACK (board G ?w2) (class_name PW) ?w2"
    obtain wc wr h w9 where r: "game_results G (game_end G wo) = ((wc, wr, h), w9)"
      by (cases "game_results G (game_end G wo)") auto
    have "played_until_over n G (local_agent G PW PB) True (start G ?w3) = Some (wo, mid)
        \<and> n < fuel \<longrightarrow>
        play_local_game fuel (spy_player ''white_player'' PW)
             (spy_player ''black_player'' PB) (spy_game G) (w, l) =
           Some ((wc, wr, h),
             handle_game_end PB wc wr h (handle_game_end PW wc wr h w9),
             l @ [Game_store_players (class_name PW) (class_name PB),
                  Player_handle_game_start ''white_player'' WHITE (board G ?w1) (class_name PB),
                  Player_handle_game_start ''black_player'' BLACK (board G ?w2) (class_name PW),
                  Game_start] @
                 mid @
                 [Game_end, Game_get_winner_color, Game_get_win_reason, Game_get_game_history,
                  Player_handle_game_end ''white_player'' wc wr h,
                  Player_handle_game_end ''black_player'' wc wr h])"
    proof (intro impI, elim conjE)
      assume pl: "played_until_over n G (local_agent G PW PB) True (start G ?w3) =
          Some (wo, mid)" and n: "n < fuel"
      show "play_local_game fuel (spy_player ''white_player'' PW)
             (spy_player ''black_player'' PB) (spy_game G) (w, l) =
           Some ((wc, wr, h),
             handle_game_end PB wc wr h (handle_game_end PW wc wr h w9),
             l @ [Game_store_players (class_name PW) (class_name PB),
                  Player_handle_game_start ''white_player'' WHITE (board G ?w1) (class_name PB),
                  Player_handle_game_start ''black_player'' BLACK (board G ?w2) (class_name PW),
                  Game_start] @
                 mid @
                 [Game_end, Game_get_winner_color, Game_get_win_reason, Game_get_game_history,
                  Player_handle_game_end ''white_player'' wc wr h,
                  Player_handle_game_end ''black_player'' wc wr h])"
        by (rule play_local_game_played [OF pl n r])
    qed
    with r show ?thesis by (simp add: Let_def)
  qed
next
  show "let (c, w1) = get_player_color G w;
          (b, w2) = get_starting_board G w1;
          (nm, w3) = get_opponent_name G w2
      in played_until_over k G (\<lambda>x. (p, P)) False (start G (handle_game_start P c b nm w3)) =
           Some (wo', mid')
         \<and> k < fuel \<longrightarrow>
         (let ((wc, wr, h), w9) = game_results G wo';
              tr = l @ [Game_get_player_color, Game_get_starting_board, Game_get_opponent_name,
                        Player_handle_game_start p c b nm, Game_start] @
                       mid' @
                       [Game_get_winner_color, Game_get_win_reason, Game_get_game_history,
                        Player_handle_game_end p wc wr h]
          in play_remote_game fuel (spy_game G) (spy_player p P) (w, l) =
               Some ((wc, wr, h), handle_game_end P wc wr h w9, tr)
             \<and> play_in_multiprocessing_local_game fuel (spy_game G) (spy_player p P) (w, l) =
               Some (handle_game_end P wc wr h w9, tr))"
  proof -
    obtain c w1 where g1: "get_player_color G w = (c, w1)" by (cases "get_player_color G w")
    obtain b w2 where g2: "get_starting_board G w1 = (b, w2)"
      by (cases "get_starting_board G w1")
    obtain nm w3 where g3: "get_opponent_name G w2 = (nm, w3)"
      by (cases "get_opponent_name G w2")
    obtain wc wr h w9 where r: "game_results G wo' = ((wc, wr, h), w9)"
      by (cases "game_results G wo'") auto
    let ?tr = "l @ [Game_get_player_color, Game_get_starting_board, Game_get_opponent_name,
                    Player_handle_game_start p c b nm, Game_start] @
                   mid' @
                   [Game_get_winner_color, Game_get_win_reason, Game_get_game_history,
                    Player_handle_game_end p wc wr h]"
    have "played_until_over k G (\<lambda>x. (p, P)) False (start G (handle_game_start P c b nm w3)) =
           Some (wo', mid') \<and> k < fuel \<longrightarrow>
         play_remote_game fuel (spy_game G) (spy_player p P) (w, l) =
               Some ((wc, wr, h), handle_game_end P wc wr h w9, ?tr)
         \<and> play_in_multiprocessing_local_game fuel (spy_game G) (spy_player p P) (w, l) =
               Some (handle_game_end P wc wr h w9, ?tr)"
    proof (intro impI, elim conjE)
      assume pl: "played_until_over k G (\<lambda>x. (p, P)) False
          (start G (handle_game_start P c b nm w3)) = Some (wo', mid')"
        and k: "k < fuel"
      show "play_remote_game fuel (spy_game G) (spy_player p P) (w, l) =
               Some ((wc, wr, h), handle_game_end P wc wr h w9, ?tr)
         \<and> play_in_multiprocessing_local_game fuel (spy_game G) (spy_player p P) (w, l) =
               Some (handle_game_end P wc wr h w9, ?tr)"
        by (rule conjI [OF play_remote_game_played [OF g1 g2 g3 pl k r]
              play_in_multiprocessing_local_game_played [OF g1 g2 g3 pl k r]])
    qed
    with g1 g2 g3 r show ?thesis by (simp add: Let_def)
  qed
next
  show "let (cw, w1) = get_player_color GW w;
          (bw, w2) = get_starting_board GW w1;
          (nw, w3) = get_opponent_name GW w2;
          (cb, v1) = get_player_color GB v;
          (bb, v2) = get_starting_board GB v1;
          (nb, v3) = get_opponent_name GB v2
      in (\<forall>x. fst (is_over GW x) \<longrightarrow>
              fst (game_results GW (snd (is_over GW x))) = (winner, reason, history))
         \<and> (\<forall>x. fst (is_over GB x) \<longrightarrow>
              fst (game_results GB (snd (is_over GB x))) = (winner, reason, history))
         \<and> played_until_over i GW (\<lambda>x. (pw, PW)) False
               (start GW (handle_game_start PW cw bw nw w3)) = Some (ww, midw)
         \<and> played_until_over j GB (\<lambda>x. (pb, PB)) False
               (start GB (handle_game_start PB cb bb nb v3)) = Some (wb, midb)
         \<and> i < fuel \<and> j < fuel \<longrightarrow>
         (\<exists>w' tr. play_in_multiprocessing_local_game fuel (spy_game GW) (spy_player pw PW)
                    (w, l) =
                  Some (w', tr @ [Player_handle_game_end pw winner reason history]))
         \<and> (\<exists>v' tr. play_in_multiprocessing_local_game fuel (spy_game GB) (spy_player pb PB)
                    (v, l) =
                  Some (v', tr @ [Player_handle_game_end pb winner reason history]))"
  proof -
    obtain cw w1 where g1: "get_player_color GW w = (cw, w1)" by (cases "get_player_color GW w")
    obtain bw w2 where g2: "get_starting_board GW w1 = (bw, w2)"
      by (cases "get_starting_board GW w1")
    obtain nw w3 where g3: "get_opponent_name GW w2 = (nw, w3)"
      by (cases "get_opponent_name GW w2")
    obtain cb v1 where h1: "get_player_color GB v = (cb, v1)" by (cases "get_player_color GB v")
    obtain bb v2 where h2: "get_starting_board GB v1 = (bb, v2)"
      by (cases "get_starting_board GB v1")
    obtain nb v3 where h3: "get_opponent_name GB v2 = (nb, v3)"
      by (cases "get_opponent_name GB v2")
    have "(\<forall>x. fst (is_over GW x) \<longrightarrow>
              fst (game_results GW (snd (is_over GW x))) = (winner, reason, history))
         \<and> (\<forall>x. fst (is_over GB x) \<longrightarrow>
              fst (game_results GB (snd (is_over GB x))) = (winner, reason, history))
         \<and> played_until_over i GW (\<lambda>x. (pw, PW)) False
               (start GW (handle_game_start PW cw bw nw w3)) = Some (ww, midw)
         \<and> played_until_over j GB (\<lambda>x. (pb, PB)) False
               (start GB (handle_game_start PB cb bb nb v3)) = Some (wb, midb)
         \<and> i < fuel \<and> j < fuel \<longrightarrow>
         (\<exists>w' tr. play_in_multiprocessing_local_game fuel (spy_game GW) (spy_player pw PW)
                    (w, l) =
                  Some (w', tr @ [Player_handle_game_end pw winner reason history]))
         \<and> (\<exists>v' tr. play_in_multiprocessing_local_game fuel (spy_game GB) (spy_player pb PB)
                    (v, l) =
                  Some (v', tr @ [Player_handle_game_end pb winner reason history]))"
    proof (intro impI, elim conjE)
      assume fw: "\<forall>x. fst (is_over GW x) \<longrightarrow>
              fst (game_results GW (snd (is_over GW x))) = (winner, reason, history)"
        and fb: "\<forall>x. fst (is_over GB x) \<longrightarrow>
              fst (game_results GB (snd (is_over GB x))) = (winner, reason, history)"
        and pw: "played_until_over i GW (\<lambda>x. (pw, PW)) False
               (start GW (handle_game_start PW cw bw nw w3)) = Some (ww, midw)"
        and pb: "played_until_over j GB (\<lambda>x. (pb, PB)) False
               (start GB (handle_game_start PB cb bb nb v3)) = Some (wb, midb)"
        and i: "i < fuel" and j: "j < fuel"
      show "(\<exists>w' tr. play_in_multiprocessing_local_game fuel (spy_game GW) (spy_player pw PW)
                    (w, l) =
                  Some (w', tr @ [Player_handle_game_end pw winner reason history]))
         \<and> (\<exists>v' tr. play_in_multiprocessing_local_game fuel (spy_game GB) (spy_player pb PB)
                    (v, l) =
                  Some (v', tr @ [Player_handle_game_end pb winner reason history]))"
        by (rule conjI [OF peer_delivers [OF fw g1 g2 g3 pw i]
              peer_delivers [OF fb h1 h2 h3 pb j]])
    qed
    with g1 g2 g3 h1 h2 h3 show ?thesis by (simp add: Let_def)
  qed
next
  show "run_response G Q color rq own ''winner_color'' w =
       Inr (to_player_put Q color (R_winner_color (fst (get_winner_color G w)))
              (snd (get_winner_color G w)))"
    by (simp add: dispatch split: prod.splits)
  show "run_response G Q color rq own ''win_reason'' w =
       Inr (to_player_put Q color (R_win_reason (fst (get_win_reason G w)))
              (snd (get_win_reason G w)))"
    by (simp add: dispatch split: prod.splits)
  show "run_response G Q color rq own ''game_history'' w =
       Inr (to_player_put Q color (R_game_history (fst (get_game_history G w)))
              (snd (get_game_history G w)))"
    by (simp add: dispatch split: prod.splits)
qed

theorem whole_game_drivers_witness:
  "played_until_over 2 example_game
     (local_agent example_game (example_player ''WhiteBot'') (example_player ''BlackBot'')) True
     example_start =
     Some (example_over,
       [Game_is_over False, Game_sense_actions, Game_move_actions,
        Game_opponent_move_results,
        Player_handle_opponent_move_result ''white_player'' False None,
        Game_get_seconds_left,
        Player_choose_sense ''white_player'' [27, 28] [Move 12 28 None] 899,
        Game_sense (Some 27),
        Player_handle_sense_result ''white_player'' [(27, None)],
        Game_get_seconds_left,
        Player_choose_move ''white_player'' [Move 12 28 None] 899,
        Game_move (Some (Move 12 28 None)),
        Player_handle_move_result ''white_player'' (Some (Move 12 28 None)) (Some (Move 12 28 None)) False None,
        Game_end_turn,
        Game_is_over False, Game_sense_actions, Game_move_actions,
        Game_opponent_move_results,
        Player_handle_opponent_move_result ''black_player'' False None,
        Game_get_seconds_left,
        Player_choose_sense ''black_player'' [27, 28] [Move 12 28 None] 849,
        Game_sense (Some 27),
        Player_handle_sense_result ''black_player'' [(27, None)],
        Game_get_seconds_left,
        Player_choose_move ''black_player'' [Move 12 28 None] 849,
        Game_move (Some (Move 12 28 None)),
        Player_handle_move_result ''black_player'' (Some (Move 12 28 None)) (Some (Move 12 28 None)) False None,
        Game_end_turn,
        Game_is_over True])
   \<and> (2::nat) < 3
   \<and> play_local_game 3 (spy_player ''white_player'' (example_player ''WhiteBot''))
       (spy_player ''black_player'' (example_player ''BlackBot''))
       (spy_game example_game) (example_start, []) =
     Some ((Some WHITE, Some TIMEOUT, example_history), example_over,
       [Game_store_players ''WhiteBot'' ''BlackBot'',
        Player_handle_game_start ''white_player'' WHITE chess_Board ''BlackBot'',
        Player_handle_game_start ''black_player'' BLACK chess_Board ''WhiteBot'',
        Game_start,
        Game_is_over False, Game_sense_actions, Game_move_actions,
        Game_opponent_move_results,
        Player_handle_opponent_move_result ''white_player'' False None,
        Game_get_seconds_left,
        Player_choose_sense ''white_player'' [27, 28] [Move 12 28 None] 899,
        Game_sense (Some 27),
        Player_handle_sense_result ''white_player'' [(27, None)],
        Game_get_seconds_left,
        Player_choose_move ''white_player'' [Move 12 28 None] 899,
        Game_move (Some (Move 12 28 None)),
        Player_handle_move_result ''white_player'' (Some (Move 12 28 None)) (Some (Move 12 28 None)) False None,
        Game_end_turn,
        Game_is_over False, Game_sense_actions, Game_move_actions,
        Game_opponent_move_results,
        Player_handle_opponent_move_result ''black_player'' False None,
        Game_get_seconds_left,
        Player_choose_sense ''black_player'' [27, 28] [Move 12 28 None] 849,
        Game_sense (Some 27),
        Player_handle_sense_result ''black_player'' [(27, None)],
        Game_get_seconds_left,
        Player_choose_move ''black_player'' [Move 12 28 None] 849,
        Game_move (Some (Move 12 28 None)),
        Player_handle_move_result ''black_player'' (Some (Move 12 28 None)) (Some (Move 12 28 None)) False None,
        Game_end_turn,
        Game_is_over True,
        Game_end, Game_get_winner_color, Game_get_win_reason, Game_get_game_history,
        Player_handle_game_end ''white_player'' (Some WHITE) (Some TIMEOUT) example_history,
        Player_handle_game_end ''black_player'' (Some WHITE) (Some TIMEOUT) example_history])
   \<and> played_until_over 2 example_game (\<lambda>x. (''player'', example_player ''WhiteBot'')) False
       example_start =
     Some (example_over,
       [Game_is_over False, Game_sense_actions, Game_move_actions,
        Game_opponent_move_results,
        Player_handle_opponent_move_result ''player'' False None,
        Game_get_seconds_left,
        Player_choose_sense ''player'' [27, 28] [Move 12 28 None] 899,
        Game_sense (Some 27),
        Player_handle_sense_result ''player'' [(27, None)],
        Game_get_seconds_left,
        Player_choose_move ''player'' [Move 12 28 None] 899,
        Game_move (Some (Move 12 28 None)),
        Game_end_turn,
        Player_handle_move_result ''player'' (Some (Move 12 28 None)) (Some (Move 12 28 None)) False None,
        Game_is_over False, Game_sense_actions, Game_move_actions,
        Game_opponent_move_results,
        Player_handle_opponent_move_result ''player'' False None,
        Game_get_seconds_left,
        Player_choose_sense ''player'' [27, 28] [Move 12 28 None] 849,
        Game_sense (Some 27),
        Player_handle_sense_result ''player'' [(27, None)],
        Game_get_seconds_left,
        Player_choose_move ''player'' [Move 12 28 None] 849,
        Game_move (Some (Move 12 28 None)),
        Game_end_turn,
        Player_handle_move_result ''player'' (Some (Move 12 28 None)) (Some (Move 12 28 None)) False None,
        Game_is_over True])
   \<and> play_remote_game 3 (spy_game example_game)
       (spy_player ''player'' (example_player ''WhiteBot'')) (example_start, []) =
     Some ((Some WHITE, Some TIMEOUT, example_history), example_over,
       [Game_get_player_color, Game_get_starting_board, Game_get_opponent_name,
        Player_handle_game_start ''player'' WHITE chess_Board ''BlackBot'',
        Game_start,
        Game_is_over False, Game_sense_actions, Game_move_actions,
        Game_opponent_move_results,
        Player_handle_opponent_move_result ''player'' False None,
        Game_get_seconds_left,
        Player_choose_sense ''player'' [27, 28] [Move 12 28 None] 899,
        Game_sense (Some 27),
        Player_handle_sense_result ''player'' [(27, None)],
        Game_get_seconds_left,
        Player_choose_move ''player'' [Move 12 28 None] 899,
        Game_move (Some (Move 12 28 None)),
        Game_end_turn,
        Player_handle_move_result ''player'' (Some (Move 12 28 None)) (Some (Move 12 28 None)) False None,
        Game_is_over False, Game_sense_actions, Game_move_actions,
        Game_opponent_move_results,
        Player_handle_opponent_move_result ''player'' False None,
        Game_get_seconds_left,
        Player_choose_sense ''player'' [27, 28] [Move 12 28 None] 849,
        Game_sense (Some 27),
        Player_handle_sense_result ''player'' [(27, None)],
        Game_get_seconds_left,
        Player_choose_move ''player'' [Move 12 28 None] 849,
        Game_move (Some (Move 12 28 None)),
        Game_end_turn,
        Player_handle_move_result ''player'' (Some (Move 12 28 None)) (Some (Move 12 28 None)) False None,
        Game_is_over True,
        Game_get_winner_color, Game_get_win_reason, Game_get_game_history,
        Player_handle_game_end ''player'' (Some WHITE) (Some TIMEOUT) example_history])
   \<and> play_in_multiprocessing_local_game 3 (spy_game example_game)
       (spy_player ''player'' (example_player ''WhiteBot'')) (example_start, []) =
     Some (example_over,
       [Game_get_player_color, Game_get_starting_board, Game_get_opponent_name,
        Player_handle_game_start ''player'' WHITE chess_Board ''BlackBot'',
        Game_start,
        Game_is_over False, Game_sense_actions, Game_move_actions,
        Game_opponent_move_results,
        Player_handle_opponent_move_result ''player'' False None,
        Game_get_seconds_left,
        Player_choose_sense ''player'' [27, 28] [Move 12 28 None] 899,
        Game_sense (Some 27),
        Player_handle_sense_result ''player'' [(27, None)],
        Game_get_seconds_left,
        Player_choose_move ''player'' [Move 12 28 None] 899,
        Game_move (Some (Move 12 28 None)),
        Game_end_turn,
        Player_handle_move_result ''player'' (Some (Move 12 28 None)) (Some (Move 12 28 None)) False None,
        Game_is_over False, Game_sense_actions, Game_move_actions,
        Game_opponent_move_results,
        Player_handle_opponent_move_result ''player'' False None,
        Game_get_seconds_left,
        Player_choose_sense ''player'' [27, 28] [Move 12 28 None] 849,
        Game_sense (Some 27),
        Player_handle_sense_result ''player'' [(27, None)],
        Game_get_seconds_left,
        Player_choose_move ''player'' [Move 12 28 None] 849,
        Game_move (Some (Move 12 28 None)),
        Game_end_turn,
        Player_handle_move_result ''player'' (Some (Move 12 28 None)) (Some (Move 12 28 None)) False None,
        Game_is_over True,
        Game_get_winner_color, Game_get_win_reason, Game_get_game_history,
        Player_handle_game_end ''player'' (Some WHITE) (Some TIMEOUT) example_history])
   \<and> played_until_over 2 example_game
       (\<lambda>x. (''white_process'', example_player ''WhiteBot'')) False example_start =
     Some (example_over,
       [Game_is_over False, Game_sense_actions, Game_move_actions,
        Game_opponent_move_results,
        Player_handle_opponent_move_result ''white_process'' False None,
        Game_get_seconds_left,
        Player_choose_sense ''white_process'' [27, 28] [Move 12 28 None] 899,
        Game_sense (Some 27),
        Player_handle_sense_result ''white_process'' [(27, None)],
        Game_get_seconds_left,
        Player_choose_move ''white_process'' [Move 12 28 None] 899,
        Game_move (Some (Move 12 28 None)),
        Game_end_turn,
        Player_handle_move_result ''white_process'' (Some (Move 12 28 None)) (Some (Move 12 28 None)) False None,
        Game_is_over False, Game_sense_actions, Game_move_actions,
        Game_opponent_move_results,
        Player_handle_opponent_move_result ''white_process'' False None,
        Game_get_seconds_left,
        Player_choose_sense ''white_process'' [27, 28] [Move 12 28 None] 849,
        Game_sense (Some 27),
        Player_handle_sense_result ''white_process'' [(27, None)],
        Game_get_seconds_left,
        Player_choose_move ''white_process'' [Move 12 28 None] 849,
        Game_move (Some (Move 12 28 None)),
        Game_end_turn,
        Player_handle_move_result ''white_process'' (Some (Move 12 28 None)) (Some (Move 12 28 None)) False None,
        Game_is_over True])
   \<and> played_until_over 2 example_black_game
       (\<lambda>x. (''black_process'', example_player ''BlackBot'')) False example_start =
     Some (example_over,
       [Game_is_over False, Game_sense_actions, Game_move_actions,
        Game_opponent_move_results,
        Player_handle_opponent_move_result ''black_process'' False None,
        Game_get_seconds_left,
        Player_choose_sense ''black_process'' [27, 28] [Move 12 28 None] 899,
        Game_sense (Some 27),
        Player_handle_sense_result ''black_process'' [(27, None)],
        Game_get_seconds_left,
        Player_choose_move ''black_process'' [Move 12 28 None] 899,
        Game_move (Some (Move 12 28 None)),
        Game_end_turn,
        Player_handle_move_result ''black_process'' (Some (Move 12 28 None)) (Some (Move 12 28 None)) False None,
        Game_is_over False, Game_sense_actions, Game_move_actions,
        Game_opponent_move_results,
        Player_handle_opponent_move_result ''black_process'' False None,
        Game_get_seconds_left,
        Player_choose_sense ''black_process'' [27, 28] [Move 12 28 None] 849,
        Game_sense (Some 27),
        Player_handle_sense_result ''black_process'' [(27, None)],
        Game_get_seconds_left,
        Player_choose_move ''black_process'' [Move 12 28 None] 849,
        Game_move (Some (Move 12 28 None)),
        Game_end_turn,
        Player_handle_move_result ''black_process'' (Some (Move 12 28 None)) (Some (Move 12 28 None)) False None,
        Game_is_over True])
   \<and> (\<exists>w' tr. play_in_multiprocessing_local_game 3 (spy_game example_game)
                (spy_player ''white_process'' (example_player ''WhiteBot''))
                (example_start, []) =
              Some (w', tr @ [Player_handle_game_end ''white_process''
                                (Some WHITE) (Some TIMEOUT) example_history]))
   \<and> (\<exists>v' tr. play_in_multiprocessing_local_game 3 (spy_game example_black_game)
                (spy_player ''black_process'' (example_player ''BlackBot''))
                (example_start, []) =
              Some (v', tr @ [Player_handle_game_end ''black_process''
                                (Some WHITE) (Some TIMEOUT) example_history]))"
proof -
  let ?midl = "[Game_is_over False, Game_sense_actions, Game_move_actions,
        Game_opponent_move_results,
        Player_handle_opponent_move_result ''white_player'' False None,
        Game_get_seconds_left,
        Player_choose_sense ''white_player'' [27, 28] [Move 12 28 None] 899,
        Game_sense (Some 27),
        Player_handle_sense_result ''white_player'' [(27, None)],
        Game_get_seconds_left,
        Player_choose_move ''white_player'' [Move 12 28 None] 899,
        Game_move (Some (Move 12 28 None)),
        Player_handle_move_result ''white_player'' (Some (Move 12 28 None)) (Some (Move 12 28 None)) False None,
        Game_end_turn,
        Game_is_over False, Game_sense_actions, Game_move_actions,
        Game_opponent_move_results,
        Player_handle_opponent_move_result ''black_player'' False None,
        Game_get_seconds_left,
        Player_choose_sense ''black_player'' [27, 28] [Move 12 28 None] 849,
        Game_sense (Some 27),
        Player_handle_sense_result ''black_player'' [(27, None)],
        Game_get_seconds_left,
        Player_choose_move ''black_player'' [Move 12 28 None] 849,
        Game_move (Some (Move 12 28 None)),
        Player_handle_move_result ''black_player'' (Some (Move 12 28 None)) (Some (Move 12 28 None)) False None,
        Game_end_turn,
        Game_is_over True]"
  let ?midr = "[Game_is_over False, Game_sense_actions, Game_move_actions,
        Game_opponent_move_results,
        Player_handle_opponent_move_result ''player'' False None,
        Game_get_seconds_left,
        Player_choose_sense ''player'' [27, 28] [Move 12 28 None] 899,
        Game_sense (Some 27),
        Player_handle_sense_result ''player'' [(27, None)],
        Game_get_seconds_left,
        Player_choose_move ''player'' [Move 12 28 None] 899,
        Game_move (Some (Move 12 28 None)),
        Game_end_turn,
        Player_handle_move_result ''player'' (Some (Move 12 28 None)) (Some (Move 12 28 None)) False None,
        Game_is_over False, Game_sense_actions, Game_move_actions,
        Game_opponent_move_results,
        Player_handle_opponent_move_result ''player'' False None,
        Game_get_seconds_left,
        Player_choose_sense ''player'' [27, 28] [Move 12 28 None] 849,
        Game_sense (Some 27),
        Player_handle_sense_result ''player'' [(27, None)],
        Game_get_seconds_left,
        Player_choose_move ''player'' [Move 12 28 None] 849,
        Game_move (Some (Move 12 28 None)),
        Game_end_turn,
        Player_handle_move_result ''player'' (Some (Move 12 28 None)) (Some (Move 12 28 None)) False None,
        Game_is_over True]"
  let ?midw = "[Game_is_over False, Game_sense_actions, Game_move_actions,
        Game_opponent_move_results,
        Player_handle_opponent_move_result ''white_process'' False None,
        Game_get_seconds_left,
        Player_choose_sense ''white_process'' [27, 28] [Move 12 28 None] 899,
        Game_sense (Some 27),
        Player_handle_sense_result ''white_process'' [(27, None)],
        Game_get_seconds_left,
        Player_choose_move ''white_process'' [Move 12 28 None] 899,
        Game_move (Some (Move 12 28 None)),
        Game_end_turn,
        Player_handle_move_result ''white_process'' (Some (Move 12 28 None)) (Some (Move 12 28 None)) False None,
        Game_is_over False, Game_sense_actions, Game_move_actions,
        Game_opponent_move_results,
        Player_handle_opponent_move_result ''white_process'' False None,
        Game_get_seconds_left,
        Player_choose_sense ''white_process'' [27, 28] [Move 12 28 None] 849,
        Game_sense (Some 27),
        Player_handle_sense_result ''white_process'' [(27, None)],
        Game_get_seconds_left,
        Player_choose_move ''white_process'' [Move 12 28 None] 849,
        Game_move (Some (Move 12 28 None)),
        Game_end_turn,
        Player_handle_move_result ''white_process'' (Some (Move 12 28 None)) (Some (Move 12 28 None)) False None,
        Game_is_over True]"
  let ?midb = "[Game_is_over False, Game_sense_actions, Game_move_actions,
        Game_opponent_move_results,
        Player_handle_opponent_move_result ''black_process'' False None,
        Game_get_seconds_left,
        Player_choose_sense ''black_process'' [27, 28] [Move 12 28 None] 899,
        Game_sense (Some 27),
        Player_handle_sense_result ''black_process'' [(27, None)],
        Game_get_seconds_left,
        Player_choose_move ''black_process'' [Move 12 28 None] 899,
        Game_move (Some (Move 12 28 None)),
        Game_end_turn,
        Player_handle_move_result ''black_process'' (Some (Move 12 28 None)) (Some (Move 12 28 None)) False None,
        Game_is_over False, Game_sense_actions, Game_move_actions,
        Game_opponent_move_results,
        Player_handle_opponent_move_result ''black_process'' False None,
        Game_get_seconds_left,
        Player_choose_sense ''black_process'' [27, 28] [Move 12 28 None] 849,
        Game_sense (Some 27),
        Player_handle_sense_result ''black_process'' [(27, None)],
        Game_get_seconds_left,
        Player_choose_move ''black_process'' [Move 12 28 None] 849,
        Game_move (Some (Move 12 28 None)),
        Game_end_turn,
        Player_handle_move_result ''black_process'' (Some (Move 12 28 None)) (Some (Move 12 28 None)) False None,
        Game_is_over True]"
  have h1: "played_until_over 2 example_game
     (local_agent example_game (example_player ''WhiteBot'') (example_player ''BlackBot'')) True
     example_start = Some (example_over, ?midl)"
    by code_simp
  have h2: "(2::nat) < 3" by simp
  have h3: "played_until_over 2 example_game (\<lambda>x. (''player'', example_player ''WhiteBot''))
     False example_start = Some (example_over, ?midr)"
    by code_simp
  have hw: "played_until_over 2 example_game
     (\<lambda>x. (''white_process'', example_player ''WhiteBot'')) False example_start =
     Some (example_over, ?midw)"
    by code_simp
  have hb: "played_until_over 2 example_black_game
     (\<lambda>x. (''black_process'', example_player ''BlackBot'')) False example_start =
     Some (example_over, ?midb)"
    by code_simp
  have fw: "\<forall>x. fst (is_over example_game x) \<longrightarrow>
        fst (game_results example_game (snd (is_over example_game x))) =
        (Some WHITE, Some TIMEOUT, example_history)"
    by (simp add: game_results_def example_game_def)
  have fb: "\<forall>x. fst (is_over example_black_game x) \<longrightarrow>
        fst (game_results example_black_game (snd (is_over example_black_game x))) =
        (Some WHITE, Some TIMEOUT, example_history)"
    by (simp add: game_results_def example_game_def example_black_game_def)
  have pre: "store_players example_game a b example_start = example_start"
    "handle_game_start (example_player n) c bd nm example_start = example_start"
    "start example_game example_start = example_start"
    "start example_black_game example_start = example_start"
    "board example_game example_start = chess_Board"
    "class_name (example_player n) = n"
    "get_player_color example_game example_start = (WHITE, example_start)"
    "get_starting_board example_game example_start = (chess_Board, example_start)"
    "get_opponent_name example_game example_start = (''BlackBot'', example_start)"
    "get_player_color example_black_game example_start = (BLACK, example_start)"
    "get_starting_board example_black_game example_start = (chess_Board, example_start)"
    "get_opponent_name example_black_game example_start = (''WhiteBot'', example_start)"
    "game_end example_game example_over = example_over"
    "game_results example_game example_over =
       ((Some WHITE, Some TIMEOUT, example_history), example_over)"
    "handle_game_end (example_player n) wc wr h example_over = example_over"
    for a b n c bd nm wc wr h
    by (simp_all add: game_results_def example_game_def example_black_game_def
          example_player_def example_over_def example_start_def)
  note c = whole_game_drivers [where G = example_game and PW = "example_player ''WhiteBot''"
      and PB = "example_player ''BlackBot''" and w = example_start and n = 2
      and wo = example_over and mid = ?midl and fuel = 3 and l = "[]" and k = 2
      and p = "''player''" and P = "example_player ''WhiteBot''" and wo' = example_over
      and mid' = ?midr and GW = example_game and GB = example_black_game
      and v = example_start and pw = "''white_process''" and pb = "''black_process''"
      and i = 2 and j = 2 and ww = example_over and wb = example_over
      and midw = ?midw and midb = ?midb
      and winner = "Some WHITE" and reason = "Some TIMEOUT" and history = example_history
      and Q = example_queues and color = WHITE and rq = "(''winner_color'', None)"
      and own = True,
      unfolded Let_def pre prod.case]
  from c h1 h2 have local: "play_local_game 3 (spy_player ''white_player'' (example_player ''WhiteBot''))
       (spy_player ''black_player'' (example_player ''BlackBot''))
       (spy_game example_game) (example_start, []) =
     Some ((Some WHITE, Some TIMEOUT, example_history), example_over,
       [Game_store_players ''WhiteBot'' ''BlackBot'',
        Player_handle_game_start ''white_player'' WHITE chess_Board ''BlackBot'',
        Player_handle_game_start ''black_player'' BLACK chess_Board ''WhiteBot'',
        Game_start,
        Game_is_over False, Game_sense_actions, Game_move_actions,
        Game_opponent_move_results,
        Player_handle_opponent_move_result ''white_player'' False None,
        Game_get_seconds_left,
        Player_choose_sense ''white_player'' [27, 28] [Move 12 28 None] 899,
        Game_sense (Some 27),
        Player_handle_sense_result ''white_player'' [(27, None)],
        Game_get_seconds_left,
        Player_choose_move ''white_player'' [Move 12 28 None] 899,
        Game_move (Some (Move 12 28 None)),
        Player_handle_move_result ''white_player'' (Some (Move 12 28 None)) (Some (Move 12 28 None)) False None,
        Game_end_turn,
        Game_is_over False, Game_sense_actions, Game_move_actions,
        Game_opponent_move_results,
        Player_handle_opponent_move_result ''black_player'' False None,
        Game_get_seconds_left,
        Player_choose_sense ''black_player'' [27, 28] [Move 12 28 None] 849,
        Game_sense (Some 27),
        Player_handle_sense_result ''black_player'' [(27, None)],
        Game_get_seconds_left,
        Player_choose_move ''black_player'' [Move 12 28 None] 849,
        Game_move (Some (Move 12 28 None)),
        Player_handle_move_result ''black_player'' (Some (Move 12 28 None)) (Some (Move 12 28 None)) False None,
        Game_end_turn,
        Game_is_over True,
        Game_end, Game_get_winner_color, Game_get_win_reason, Game_get_game_history,
        Player_handle_game_end ''white_player'' (Some WHITE) (Some TIMEOUT) example_history,
        Player_handle_game_end ''black_player'' (Some WHITE) (Some TIMEOUT) example_history])"
    by simp
  from c h3 h2 have remote: "play_remote_game 3 (spy_game example_game)
       (spy_player ''player'' (example_player ''WhiteBot'')) (example_start, []) =
     Some ((Some WHITE, Some TIMEOUT, example_history), example_over,
       [Game_get_player_color, Game_get_starting_board, Game_get_opponent_name,
        Player_handle_game_start ''player'' WHITE chess_Board ''BlackBot'',
        Game_start,
        Game_is_over False, Game_sense_actions, Game_move_actions,
        Game_opponent_move_results,
        Player_handle_opponent_move_result ''player'' False None,
        Game_get_seconds_left,
        Player_choose_sense ''player'' [27, 28] [Move 12 28 None] 899,
        Game_sense (Some 27),
        Player_handle_sense_result ''player'' [(27, None)],
        Game_get_seconds_left,
        Player_choose_move ''player'' [Move 12 28 None] 899,
        Game_move (Some (Move 12 28 None)),
        Game_end_turn,
        Player_handle_move_result ''player'' (Some (Move 12 28 None)) (Some (Move 12 28 None)) False None,
        Game_is_over False, Game_sense_actions, Game_move_actions,
        Game_opponent_move_results,
        Player_handle_opponent_move_result ''player'' False None,
        Game_get_seconds_left,
        Player_choose_sense ''player'' [27, 28] [Move 12 28 None] 849,
        Game_sense (Some 27),
        Player_handle_sense_result ''player'' [(27, None)],
        Game_get_seconds_left,
        Player_choose_move ''player'' [Move 12 28 None] 849,
        Game_move (Some (Move 12 28 None)),
        Game_end_turn,
        Player_handle_move_result ''player'' (Some (Move 12 28 None)) (Some (Move 12 28 None)) False None,
        Game_is_over True,
        Game_get_winner_color, Game_get_win_reason, Game_get_game_history,
        Player_handle_game_end ''player'' (Some WHITE) (Some TIMEOUT) example_history])"
    by simp
  from c h3 h2 have peer: "play_in_multiprocessing_local_game 3 (spy_game example_game)
       (spy_player ''player'' (example_player ''WhiteBot'')) (example_start, []) =
     Some (example_over,
       [Game_get_player_color, Game_get_starting_board, Game_get_opponent_name,
        Player_handle_game_start ''player'' WHITE chess_Board ''BlackBot'',
        Game_start,
        Game_is_over False, Game_sense_actions, Game_move_actions,
        Game_opponent_move_results,
        Player_handle_opponent_move_result ''player'' False None,
        Game_get_seconds_left,
        Player_choose_sense ''player'' [27, 28] [Move 12 28 None] 899,
        Game_sense (Some 27),
        Player_handle_sense_result ''player'' [(27, None)],
        Game_get_seconds_left,
        Player_choose_move ''player'' [Move 12 28 None] 899,
        Game_move (Some (Move 12 28 None)),
        Game_end_turn,
        Player_handle_move_result ''player'' (Some (Move 12 28 None)) (Some (Move 12 28 None)) False None,
        Game_is_over False, Game_sense_actions, Game_move_actions,
        Game_opponent_move_results,
        Player_handle_opponent_move_result ''player'' False None,
        Game_get_seconds_left,
        Player_choose_sense ''player'' [27, 28] [Move 12 28 None] 849,
        Game_sense (Some 27),
        Player_handle_sense_result ''player'' [(27, None)],
        Game_get_seconds_left,
        Player_choose_move ''player'' [Move 12 28 None] 849,
        Game_move (Some (Move 12 28 None)),
        Game_end_turn,
        Player_handle_move_result ''player'' (Some (Move 12 28 None)) (Some (Move 12 28 None)) False None,
        Game_is_over True,
        Game_get_winner_color, Game_get_win_reason, Game_get_game_history,
        Player_handle_game_end ''player'' (Some WHITE) (Some TIMEOUT) example_history])"
    by simp
  from c have "(\<forall>x. fst (is_over example_game x) \<longrightarrow>
        fst (game_results example_game (snd (is_over example_game x))) =
        (Some WHITE, Some TIMEOUT, example_history))
      \<and> (\<forall>x. fst (is_over example_black_game x) \<longrightarrow>
        fst (game_results example_black_game (snd (is_over example_black_game x))) =
        (Some WHITE, Some TIMEOUT, example_history))
      \<and> played_until_over 2 example_game
            (\<lambda>x. (''white_process'', example_player ''WhiteBot'')) False example_start =
          Some (example_over, ?midw)
      \<and> played_until_over 2 example_black_game
            (\<lambda>x. (''black_process'', example_player ''BlackBot'')) False example_start =
          Some (example_over, ?midb)
      \<and> (2::nat) < 3 \<and> (2::nat) < 3 \<longrightarrow>
      (\<exists>w' tr. play_in_multiprocessing_local_game 3 (spy_game example_game)
                (spy_player ''white_process'' (example_player ''WhiteBot''))
                (example_start, []) =
              Some (w', tr @ [Player_handle_game_end ''white_process''
                                (Some WHITE) (Some TIMEOUT) example_history]))
      \<and> (\<exists>v' tr. play_in_multiprocessing_local_game 3 (spy_game example_black_game)
                (spy_player ''black_process'' (example_player ''BlackBot''))
                (example_start, []) =
              Some (v', tr @ [Player_handle_game_end ''black_process''
                                (Some WHITE) (Some TIMEOUT) example_history]))"
    by (elim conjE)
  with fw fb hw hb h2 have peers: "(\<exists>w' tr. play_in_multiprocessing_local_game 3 (spy_game example_game)
                (spy_player ''white_process'' (example_player ''WhiteBot''))
                (example_start, []) =
              Some (w', tr @ [Player_handle_game_end ''white_process''
                                (Some WHITE) (Some TIMEOUT) example_history]))
      \<and> (\<exists>v' tr. play_in_multiprocessing_local_game 3 (spy_game example_black_game)
                (spy_player ''black_process'' (example_player ''BlackBot''))
                (example_start, []) =
              Some (v', tr @ [Player_handle_game_end ''black_process''
                                (Some WHITE) (Some TIMEOUT) example_history]))"
    by (elim impE) (intro conjI)
  show ?thesis
    apply (rule conjI [OF h1])
    apply (rule conjI [OF h2])
    apply (rule conjI [OF local])
    apply (rule conjI [OF h3])
    apply (rule conjI [OF remote])
    apply (rule conjI [OF peer])
    apply (rule conjI [OF hw])
    apply (rule conjI [OF hb])
    apply (rule peers)
    done
qed

end
